theory Spec2Isabelle
  imports Complex_Main "HOL-Library.Sublist"
begin

section \<open>Data model\<close>

text \<open>
  A Python \<open>str\<close> is a sequence of Unicode code points, so it is modelled as a list of
  natural numbers (the en-dash U+2013 does not fit into an 8-bit \<open>char\<close>). The function
  \<open>u\<close> turns an ASCII literal into such a list. Python's unbounded \<open>int\<close> is \<open>int\<close>,
  \<open>Optional[t]\<close> is \<open>t option\<close>. A Python \<open>float\<close> is an IEEE 754 binary64 number; it is
  modelled by the real number it denotes, and every arithmetic operation rounds its exact
  result to the nearest binary64 number (see the next section).
\<close>

type_synonym ustr = "nat list"

definition u :: "string \<Rightarrow> ustr" where
  "u s = map of_char s"

datatype py_error = TypeError | ValueError ustr | OverflowError | ZeroDivisionError

section \<open>Floating-point arithmetic\<close>

text \<open>
  Rounding to the nearest integer, a tie going to the even one.
\<close>

definition round_half_even :: "real \<Rightarrow> int" where
  "round_half_even x =
     (let f = \<lfloor>x\<rfloor>; d = x - of_int f
      in if d < 1 / 2 then f else if 1 / 2 < d then f + 1 else if even f then f else f + 1)"

text \<open>
  \<open>fl64 x\<close> is the binary64 number nearest to the real \<open>x\<close>, a tie going to the one with
  the even significand (the default rounding of IEEE 754). \<open>binade x\<close> is the exponent
  \<open>e\<close> with \<open>2^e \<le> |x| < 2^(e+1)\<close>, not below the least normal exponent -1022, and
  \<open>ulp64 x\<close> the spacing \<open>2^(e-52)\<close> of the binary64 numbers there; below \<open>2^-1022\<close> this
  is the spacing of the subnormal numbers. Infinities are not modelled: a value of
  \<open>2^1024\<close> or more stands for a result that Python gives as \<open>inf\<close>; it can arise only
  in \<open>calculate_match_score\<close>, where the scores are multiplied by 100, for a negative
  expected minimum salary more than \<open>10^306\<close> times smaller in size than the job's maximum.
\<close>

definition binade :: "real \<Rightarrow> int" where
  "binade x = max (- 1022) \<lfloor>log 2 \<bar>x\<bar>\<rfloor>"

definition ulp64 :: "real \<Rightarrow> real" where
  "ulp64 x = 2 powr of_int (binade x - 52)"

definition fl64 :: "real \<Rightarrow> real" where
  "fl64 x = (if x = 0 then 0 else of_int (round_half_even (x / ulp64 x)) * ulp64 x)"

text \<open>
  \<open>a + b\<close>, \<open>a - b\<close> and \<open>a * b\<close> on floats. A decimal literal such as \<open>0.7\<close> denotes
  \<open>fl64 (7 / 10)\<close>; the literals \<open>0.0\<close>, \<open>0.5\<close>, \<open>1.0\<close> and \<open>100\<close> denote themselves.
\<close>

definition fadd :: "real \<Rightarrow> real \<Rightarrow> real" where
  "fadd a b = fl64 (a + b)"

definition fsub :: "real \<Rightarrow> real \<Rightarrow> real" where
  "fsub a b = fl64 (a - b)"

definition fmul :: "real \<Rightarrow> real \<Rightarrow> real" where
  "fmul a b = fl64 (a * b)"

text \<open>
  \<open>a / b\<close> on two integers: the quotient of the integers, correctly rounded.
  \<open>ZeroDivisionError\<close> for \<open>b = 0\<close>; \<open>OverflowError\<close> when the rounded quotient would
  not be finite, that is when the quotient reaches the greatest binary64 number
  \<open>2^1024 - 2^971\<close> plus half a spacing.
\<close>

definition py_truediv :: "int \<Rightarrow> int \<Rightarrow> py_error + real" where
  "py_truediv a b =
     (if b = 0 then Inl ZeroDivisionError
      else if 2 ^ 1024 - 2 ^ 970 \<le> \<bar>real_of_int a / real_of_int b\<bar> then Inl OverflowError
      else Inr (fl64 (real_of_int a / real_of_int b)))"

text \<open>
  \<open>round(x, 2)\<close> on a float: the exact value of \<open>x\<close> is rounded to two decimals, a tie
  going to the even last digit, and the float nearest to that decimal is returned.
\<close>

definition py_round2 :: "real \<Rightarrow> real" where
  "py_round2 x = fl64 (of_int (round_half_even (x * 100)) / 100)"

section \<open>Salary sub-scorer (matcher.py, calculate_salary_match)\<close>

text \<open>\<open>x or d\<close> on an \<open>Optional[int]\<close>: \<open>None\<close> and \<open>0\<close> are both falsy.\<close>

definition py_not :: "int option \<Rightarrow> bool" where
  "py_not x = (x = None \<or> x = Some 0)"

definition py_or :: "int option \<Rightarrow> int \<Rightarrow> int" where
  "py_or x d = (case x of None \<Rightarrow> d | Some v \<Rightarrow> if v = 0 then d else v)"

text \<open>\<open>a >= b\<close> where \<open>b\<close> may be \<open>None\<close>: Python 3 raises \<open>TypeError\<close> then.\<close>

definition py_ge :: "int \<Rightarrow> int option \<Rightarrow> py_error + bool" where
  "py_ge a b = (case b of None \<Rightarrow> Inl TypeError | Some y \<Rightarrow> Inr (y \<le> a))"

text \<open>\<open>overlap_start = max(user_min_salary, job_min_salary or 0)\<close>\<close>

definition overlap_start :: "int \<Rightarrow> int option \<Rightarrow> int" where
  "overlap_start user_min job_min_salary = max user_min (py_or job_min_salary 0)"

text \<open>
  \<open>overlap_end = min(user_max_salary or float('inf'), job_max_salary)\<close>; the minimum of
  infinity and \<open>job_max\<close> is \<open>job_max\<close>.
\<close>

definition overlap_end :: "int option \<Rightarrow> int \<Rightarrow> int" where
  "overlap_end user_max_salary job_max =
     (if py_not user_max_salary then job_max
      else min (py_or user_max_salary 0) job_max)"

text \<open>
  The condition of the first \<open>if\<close>:
  \<open>user_min <= job_max and (not user_max_salary or user_max_salary >= job_min_salary)\<close>,
  evaluated left to right with short-circuiting, so the comparison with \<open>job_min_salary\<close>
  is only reached when the first two tests do not decide.
\<close>

definition ranges_overlap :: "int \<Rightarrow> int option \<Rightarrow> int option \<Rightarrow> int \<Rightarrow> py_error + bool" where
  "ranges_overlap user_min user_max_salary job_min_salary job_max =
     (if user_min \<le> job_max then
        (case user_max_salary of
           None \<Rightarrow> Inr True
         | Some user_max \<Rightarrow> if user_max = 0 then Inr True else py_ge user_max job_min_salary)
      else Inr False)"

definition calculate_salary_match ::
  "int option \<Rightarrow> int option \<Rightarrow> int option \<Rightarrow> int option \<Rightarrow> py_error + real" where
  "calculate_salary_match user_min_salary user_max_salary job_min_salary job_max_salary =
     (case (user_min_salary, job_max_salary) of
        (Some user_min, Some job_max) \<Rightarrow>
          if user_min = 0 \<or> job_max = 0 then Inr (1 / 2)
          else
            (case ranges_overlap user_min user_max_salary job_min_salary job_max of
               Inl e \<Rightarrow> Inl e
             | Inr ov \<Rightarrow>
                 if ov \<and> overlap_start user_min job_min_salary \<le> overlap_end user_max_salary job_max
                 then Inr 1
                 else if job_max < user_min then
                   (let gap = user_min - job_max
                    in case py_truediv gap user_min of
                         Inl e \<Rightarrow> Inl e
                       | Inr ratio \<Rightarrow>
                           (let penalty = min ratio (1 / 2)
                            in Inr (max 0 (fsub (1 / 2) penalty))))
                 else Inr (fl64 (3 / 10)))
      | _ \<Rightarrow> Inr (1 / 2))"

section \<open>The Python string runtime\<close>

text \<open>
  \<open>str.lower\<close>, \<open>str.title\<close>, \<open>str.isspace\<close> and the regular-expression classes
  \<open>\w\<close> and \<open>\d\<close> are decided by the Unicode tables of the interpreter, which are not part
  of the repository. They are parameters of the model: every general theorem below holds
  for any such tables. \<open>re_digit c\<close> is \<open>Some v\<close> when \<open>\d\<close> matches the code point
  \<open>c\<close>, and \<open>v\<close> is then the digit value that \<open>int()\<close> gives it.
\<close>

record pyrt =
  str_lower :: "ustr \<Rightarrow> ustr"
  str_title :: "ustr \<Rightarrow> ustr"
  str_isspace :: "nat \<Rightarrow> bool"
  re_word :: "nat \<Rightarrow> bool"
  re_digit :: "nat \<Rightarrow> nat option"

text \<open>
  The tables restricted to ASCII, for the concrete examples: on a text all of whose code
  points are ASCII (below 128) this is what CPython computes. Beyond ASCII it is not:
  CPython knows letters, digits and white space there which these tables do not.
\<close>

definition ascii_upper :: "nat \<Rightarrow> bool" where
  "ascii_upper c = (65 \<le> c \<and> c \<le> 90)"

definition ascii_lowercase :: "nat \<Rightarrow> bool" where
  "ascii_lowercase c = (97 \<le> c \<and> c \<le> 122)"

definition ascii_lower :: "ustr \<Rightarrow> ustr" where
  "ascii_lower s = map (\<lambda>c. if ascii_upper c then c + 32 else c) s"

text \<open>
  \<open>str.title\<close>: a cased character is upper-cased when the character before it is not
  cased, and lower-cased otherwise. The flag says whether the previous character is cased.
\<close>

fun ascii_title_from :: "bool \<Rightarrow> ustr \<Rightarrow> ustr" where
  "ascii_title_from prev [] = []"
| "ascii_title_from prev (c # cs) =
     (if ascii_upper c then (if prev then c + 32 else c) # ascii_title_from True cs
      else if ascii_lowercase c then (if prev then c else c - 32) # ascii_title_from True cs
      else c # ascii_title_from False cs)"

definition ascii_word :: "nat \<Rightarrow> bool" where
  "ascii_word c = (ascii_upper c \<or> ascii_lowercase c \<or> (48 \<le> c \<and> c \<le> 57) \<or> c = 95)"

definition ascii_digit :: "nat \<Rightarrow> nat option" where
  "ascii_digit c = (if 48 \<le> c \<and> c \<le> 57 then Some (c - 48) else None)"

definition ascii_space :: "nat \<Rightarrow> bool" where
  "ascii_space c = (c = 32 \<or> (9 \<le> c \<and> c \<le> 13) \<or> (28 \<le> c \<and> c \<le> 31))"

definition ascii_rt :: pyrt where
  "ascii_rt = \<lparr> str_lower = ascii_lower, str_title = ascii_title_from False,
                str_isspace = ascii_space, re_word = ascii_word, re_digit = ascii_digit \<rparr>"

text \<open>\<open>sep.join(xs)\<close> and \<open>s.strip()\<close>.\<close>

fun py_join :: "ustr \<Rightarrow> ustr list \<Rightarrow> ustr" where
  "py_join sep [] = []"
| "py_join sep [x] = x"
| "py_join sep (x # y # ys) = x @ sep @ py_join sep (y # ys)"

definition py_strip :: "(nat \<Rightarrow> bool) \<Rightarrow> ustr \<Rightarrow> ustr" where
  "py_strip sp s = rev (dropWhile sp (rev (dropWhile sp s)))"

section \<open>Location sub-scorer (matcher.py, calculate_location_match)\<close>

text \<open>
  \<open>not user_location\<close> is true for \<open>None\<close> and for the empty string. \<open>a in b\<close> on strings
  is \<open>sublist a b\<close>.
\<close>

definition calculate_location_match :: "pyrt \<Rightarrow> ustr option \<Rightarrow> ustr option \<Rightarrow> real" where
  "calculate_location_match py user_location job_location =
     (case (user_location, job_location) of
        (Some user_loc, Some job_loc) \<Rightarrow>
          if user_loc = [] \<or> job_loc = [] then 1 / 2
          else
            (let user_loc_lower = str_lower py user_loc;
                 job_loc_lower = str_lower py job_loc
             in if sublist (u ''remote'') job_loc_lower then 1
                else if user_loc_lower = job_loc_lower then 1
                else if sublist user_loc_lower job_loc_lower \<or> sublist job_loc_lower user_loc_lower
                then fl64 (8 / 10)
                else 0)
      | _ \<Rightarrow> 1 / 2)"

section \<open>Experience sub-scorer (matcher.py, calculate_experience_match)\<close>

text \<open>
  The character class of the pattern \<open>(\d+)[...](\d+)\<close> as the interpreter reads the source
  file (UTF-8): the bytes between the brackets are \<open>2D C3A2 E282AC E2809C\<close>, that is the four
  code points U+002D (hyphen-minus), U+00E2, U+20AC and U+201C. The en-dash is U+2013.
\<close>

definition exp_sep :: "nat \<Rightarrow> bool" where
  "exp_sep c = (c = 45 \<or> c = 226 \<or> c = 8364 \<or> c = 8220)"

definition hyphen_only :: "nat \<Rightarrow> bool" where
  "hyphen_only c = (c = 45)"

definition en_dash :: nat where
  "en_dash = 8211"

definition is_digit :: "(nat \<Rightarrow> nat option) \<Rightarrow> nat \<Rightarrow> bool" where
  "is_digit dv c = (dv c \<noteq> None)"

text \<open>
  The pattern matched at the start of \<open>s\<close>: a maximal run of digits, one separator, a
  maximal run of digits. The first group cannot give digits back, since the character
  after a shorter group would be a digit and no separator is one.
\<close>

definition match_range_at ::
  "(nat \<Rightarrow> bool) \<Rightarrow> (nat \<Rightarrow> nat option) \<Rightarrow> ustr \<Rightarrow> (ustr \<times> ustr) option" where
  "match_range_at sep dv s =
     (let g1 = takeWhile (is_digit dv) s in
      if g1 = [] then None
      else case dropWhile (is_digit dv) s of
             [] \<Rightarrow> None
           | c # r \<Rightarrow>
               if sep c then
                 (let g2 = takeWhile (is_digit dv) r in if g2 = [] then None else Some (g1, g2))
               else None)"

text \<open>\<open>re.search\<close>: the match at the leftmost position where there is one.\<close>

fun re_search_range ::
  "(nat \<Rightarrow> bool) \<Rightarrow> (nat \<Rightarrow> nat option) \<Rightarrow> ustr \<Rightarrow> (ustr \<times> ustr) option" where
  "re_search_range sep dv [] = None"
| "re_search_range sep dv (c # cs) =
     (case match_range_at sep dv (c # cs) of
        Some g \<Rightarrow> Some g
      | None \<Rightarrow> re_search_range sep dv cs)"

text \<open>
  \<open>int(group)\<close> on a run of digits. An interpreter that limits the length of the strings
  which \<open>int\<close> converts (CPython from 3.11 on, 4300 digits unless set otherwise) raises
  \<open>ValueError\<close> beyond its limit; this is the conversion within the limit.
\<close>

definition py_int :: "(nat \<Rightarrow> nat option) \<Rightarrow> ustr \<Rightarrow> nat" where
  "py_int dv ds = foldl (\<lambda>a c. 10 * a + (case dv c of Some v \<Rightarrow> v | None \<Rightarrow> 0)) 0 ds"

text \<open>
  \<open>resume_years / min_years\<close> divides two integers with \<open>resume_years < min_years\<close>, so
  the divisor is not 0 and the quotient is below 1: the division returns its correctly
  rounded quotient and raises nothing.
\<close>

definition range_score :: "nat \<Rightarrow> nat \<Rightarrow> nat \<Rightarrow> real" where
  "range_score resume_years min_years max_years =
     (if min_years \<le> resume_years \<and> resume_years \<le> max_years then 1
      else if resume_years < min_years then max 0 (fl64 (real resume_years / real min_years))
      else fl64 (9 / 10))"

definition keyword_score :: "nat \<Rightarrow> ustr \<Rightarrow> real" where
  "keyword_score resume_years req_lower =
     (if sublist (u ''entry'') req_lower \<or> sublist (u ''junior'') req_lower
      then (if resume_years \<le> 2 then 1 else fl64 (7 / 10))
      else if sublist (u ''senior'') req_lower
      then (if 5 \<le> resume_years then 1 else 1 / 2)
      else if sublist (u ''mid'') req_lower
      then (if 2 \<le> resume_years \<and> resume_years \<le> 5 then 1 else fl64 (6 / 10))
      else 1 / 2)"

text \<open>
  The function itself: \<open>range_score\<close> is the body of \<open>if match:\<close>, \<open>keyword_score\<close> the
  keyword checks after it. \<open>required_experience\<close> comes from a nullable column, and
  \<open>not required_experience\<close> holds for \<open>None\<close> and for the empty string.
\<close>

definition calculate_experience_match :: "pyrt \<Rightarrow> 'e list \<Rightarrow> ustr option \<Rightarrow> real" where
  "calculate_experience_match py resume_experience required_experience =
     (if resume_experience = [] then 0
      else
        (let resume_years = length resume_experience in
         case required_experience of
           None \<Rightarrow> 1
         | Some req \<Rightarrow>
             if req = [] then 1
             else
               (case re_search_range exp_sep (re_digit py) req of
                  Some (g1, g2) \<Rightarrow>
                    range_score resume_years (py_int (re_digit py) g1) (py_int (re_digit py) g2)
                | None \<Rightarrow> keyword_score resume_years (str_lower py req))))"

section \<open>Skill and semantic sub-scorers (matcher.py)\<close>

text \<open>
  The class \<open>JobMatcher\<close> holds two library objects. What they compute is outside the
  repository, so each is a parameter: given the two texts, the cosine similarity of their
  vectors as a float, or \<open>None\<close> when any step of the library raises an exception.
  \<open>exact_matches / len(job_skills_lower)\<close> divides by a length that is not 0 and the
  quotient is at most 1, so the division returns its correctly rounded quotient.
\<close>

record JobMatcher =
  sentence_model :: "ustr \<Rightarrow> ustr \<Rightarrow> real option"
  tfidf_vectorizer :: "ustr \<Rightarrow> ustr \<Rightarrow> real option"

definition calculate_skill_match :: "JobMatcher \<Rightarrow> pyrt \<Rightarrow> ustr list \<Rightarrow> ustr list \<Rightarrow> real" where
  "calculate_skill_match self py resume_skills job_skills =
     (if resume_skills = [] \<or> job_skills = [] then 0
      else
        (let resume_skills_lower = map (str_lower py) resume_skills;
             job_skills_lower = map (str_lower py) job_skills;
             exact_matches = card (set resume_skills_lower \<inter> set job_skills_lower);
             exact_match_score =
               (if job_skills_lower \<noteq> []
                then fl64 (real exact_matches / real (length job_skills_lower))
                else 0);
             tfidf_score =
               (case tfidf_vectorizer self (py_join (u '' '') resume_skills_lower)
                                           (py_join (u '' '') job_skills_lower) of
                  Some v \<Rightarrow> v
                | None \<Rightarrow> exact_match_score);
             final_score = fadd (fmul exact_match_score (fl64 (7 / 10)))
                                (fmul tfidf_score (fl64 (3 / 10)))
         in min final_score 1))"

definition calculate_semantic_similarity :: "JobMatcher \<Rightarrow> ustr \<Rightarrow> ustr \<Rightarrow> real" where
  "calculate_semantic_similarity self resume_summary job_description =
     (if resume_summary = [] \<or> job_description = [] then 0
      else
        (case sentence_model self resume_summary job_description of
           Some similarity \<Rightarrow> max 0 (min similarity 1)
         | None \<Rightarrow> 0))"

section \<open>Score combiner (matcher.py, calculate_match_score)\<close>

record skill_rec =
  skill_name :: ustr
  skill_category :: ustr

record experience_entry =
  title :: ustr
  company :: ustr
  duration :: "ustr option"

record resume_data =
  skills :: "skill_rec list"
  summary :: ustr
  experience :: "experience_entry list"

record job_data =
  required_skills :: "ustr list"
  description :: ustr
  experience_required :: "ustr option"
  location :: "ustr option"
  salary_min :: "int option"
  salary_max :: "int option"

record preferences =
  pref_location :: "ustr option"
  min_salary :: "int option"
  max_salary :: "int option"

record score_breakdown =
  skill_match :: real
  semantic_similarity :: real
  experience_match :: real
  location_match :: real
  salary_match :: real

record match_result =
  match_score :: real
  breakdown :: score_breakdown

text \<open>\<open>preferences.get(k) if preferences else None\<close>\<close>

definition pref_get :: "preferences option \<Rightarrow> (preferences \<Rightarrow> 'a option) \<Rightarrow> 'a option" where
  "pref_get prefs field = (case prefs of None \<Rightarrow> None | Some p \<Rightarrow> field p)"

definition calculate_match_score ::
  "JobMatcher \<Rightarrow> pyrt \<Rightarrow> resume_data \<Rightarrow> job_data \<Rightarrow> preferences option \<Rightarrow> py_error + match_result" where
  "calculate_match_score self py resume job prefs =
     (let resume_skills = map skill_name (skills resume);
          skill_score = calculate_skill_match self py resume_skills (required_skills job);
          semantic_score = calculate_semantic_similarity self (summary resume) (description job);
          experience_score = calculate_experience_match py (experience resume) (experience_required job);
          location_score = calculate_location_match py (pref_get prefs pref_location) (location job)
      in case calculate_salary_match (pref_get prefs min_salary) (pref_get prefs max_salary)
                (salary_min job) (salary_max job) of
           Inl e \<Rightarrow> Inl e
         | Inr salary_score \<Rightarrow>
             (let final_score =
                    fmul
                      (fadd
                        (fadd
                          (fadd
                            (fadd (fmul skill_score (1 / 2))
                                  (fmul semantic_score (fl64 (2 / 10))))
                            (fmul experience_score (fl64 (1 / 10))))
                          (fmul location_score (fl64 (1 / 10))))
                        (fmul salary_score (fl64 (1 / 10))))
                      100
              in Inr \<lparr> match_score = py_round2 final_score,
                       breakdown = \<lparr> skill_match = py_round2 (fmul skill_score 100),
                                     semantic_similarity = py_round2 (fmul semantic_score 100),
                                     experience_match = py_round2 (fmul experience_score 100),
                                     location_match = py_round2 (fmul location_score 100),
                                     salary_match = py_round2 (fmul salary_score 100) \<rparr> \<rparr>))"

text \<open>
  The combiner as the specification words it: fixed decimal weights, one per dimension,
  and the sum of the products \<open>subscore * weight\<close>, taken from left to right in float
  arithmetic with each weight read as a float literal.
\<close>

definition spec_weights :: "real list" where
  "spec_weights = [5 / 10, 2 / 10, 1 / 10, 1 / 10, 1 / 10]"

definition float_weighted_sum :: "real list \<Rightarrow> real list \<Rightarrow> real" where
  "float_weighted_sum weights subscores =
     (case map2 (\<lambda>s w. fmul s (fl64 w)) subscores weights of
        [] \<Rightarrow> 0
      | p # ps \<Rightarrow> foldl fadd p ps)"

section \<open>Text extraction (resume_parser.py, extract_text_from_pdf)\<close>

text \<open>
  The run of a PDF library over a file is a parameter: the page texts it yields before it
  ends, and the message of the exception that ends it, if one does. \<open>pdfplumber\<close> yields
  \<open>None\<close> for a page without text. The model records which libraries were called.
\<close>

type_synonym bytes = "nat list"

record pdf_libs =
  pdfplumber_run :: "bytes \<Rightarrow> ustr option list \<times> ustr option"
  pypdf2_run :: "bytes \<Rightarrow> ustr list \<times> ustr option"

datatype extractor = Pdfplumber | PyPDF2

text \<open>\<open>if page_text: text += page_text + "\n"\<close>\<close>

definition add_page_if_text :: "ustr \<Rightarrow> ustr option \<Rightarrow> ustr" where
  "add_page_if_text text page_text =
     (case page_text of
        None \<Rightarrow> text
      | Some t \<Rightarrow> if t = [] then text else text @ t @ [10])"

definition extract_text_from_pdf ::
  "pdf_libs \<Rightarrow> pyrt \<Rightarrow> bytes \<Rightarrow> extractor list \<times> (py_error + ustr)" where
  "extract_text_from_pdf libs py file_content =
     (case pdfplumber_run libs file_content of
        (pages, raised) \<Rightarrow>
          (let text = foldl add_page_if_text [] pages
           in case raised of
                None \<Rightarrow> ([Pdfplumber], Inr (py_strip (str_isspace py) text))
              | Some _ \<Rightarrow>
                  (case pypdf2_run libs file_content of
                     (pages2, raised2) \<Rightarrow>
                       (let text2 = foldl (\<lambda>t p. t @ p @ [10]) text pages2
                        in case raised2 of
                             None \<Rightarrow> ([Pdfplumber, PyPDF2], Inr (py_strip (str_isspace py) text2))
                           | Some e \<Rightarrow>
                               ([Pdfplumber, PyPDF2],
                                Inl (ValueError (u ''Failed to extract text from PDF: '' @ e)))))))"

section \<open>Skill extraction (resume_parser.py, extract_skills)\<close>

definition skill_database :: "(ustr \<times> ustr list) list" where
  "skill_database =
     [(u ''Programming Languages'',
         map u [''python'', ''java'', ''javascript'', ''typescript'', ''c++'', ''c#'', ''ruby'', ''go'',
                ''rust'', ''php'', ''swift'', ''kotlin'', ''scala'', ''r'', ''matlab'', ''perl'']),
      (u ''Web Frameworks'',
         map u [''react'', ''angular'', ''vue'', ''django'', ''flask'', ''fastapi'', ''express'',
                ''spring'', ''laravel'', ''rails'', ''nextjs'', ''nuxt'', ''svelte'']),
      (u ''Databases'',
         map u [''postgresql'', ''mysql'', ''mongodb'', ''redis'', ''elasticsearch'', ''cassandra'',
                ''dynamodb'', ''oracle'', ''sql server'', ''sqlite'', ''neo4j'']),
      (u ''Cloud Platforms'',
         map u [''aws'', ''azure'', ''gcp'', ''google cloud'', ''heroku'', ''digitalocean'',
                ''vercel'', ''netlify'', ''cloudflare'']),
      (u ''DevOps Tools'',
         map u [''docker'', ''kubernetes'', ''jenkins'', ''gitlab ci'', ''github actions'',
                ''terraform'', ''ansible'', ''circleci'', ''travis ci'']),
      (u ''Data Science'',
         map u [''machine learning'', ''deep learning'', ''nlp'', ''computer vision'',
                ''tensorflow'', ''pytorch'', ''scikit-learn'', ''pandas'', ''numpy'', ''keras'']),
      (u ''Other Tools'',
         map u [''git'', ''linux'', ''bash'', ''rest api'', ''graphql'', ''microservices'',
                ''agile'', ''scrum'', ''jira'', ''confluence''])]"

text \<open>
  \<open>re.search(r'\b' + re.escape(skill) + r'\b', text_lower)\<close>. The escaped skill matches
  itself literally. \<open>\b\<close> holds between two positions of which exactly one is a word
  character; the outside of the text counts as a non-word character. \<open>prev\<close> says whether
  the character before the current position is a word character.
\<close>

definition word_match_here :: "(nat \<Rightarrow> bool) \<Rightarrow> ustr \<Rightarrow> bool \<Rightarrow> ustr \<Rightarrow> bool" where
  "word_match_here w pat prev s =
     (prefix pat s \<and>
      prev \<noteq> (case s of [] \<Rightarrow> False | c # _ \<Rightarrow> w c) \<and>
      (if pat = [] then prev else w (last pat))
        \<noteq> (case drop (length pat) s of [] \<Rightarrow> False | c # _ \<Rightarrow> w c))"

fun word_search_from :: "(nat \<Rightarrow> bool) \<Rightarrow> ustr \<Rightarrow> bool \<Rightarrow> ustr \<Rightarrow> bool" where
  "word_search_from w pat prev [] = word_match_here w pat prev []"
| "word_search_from w pat prev (c # cs) =
     (word_match_here w pat prev (c # cs) \<or> word_search_from w pat (w c) cs)"

definition re_search_word :: "pyrt \<Rightarrow> ustr \<Rightarrow> ustr \<Rightarrow> bool" where
  "re_search_word py skill text = word_search_from (re_word py) skill False text"

text \<open>The nested iteration that fills \<open>found_skills\<close>, in the order of the dictionary.\<close>

definition found_in_category :: "pyrt \<Rightarrow> ustr \<Rightarrow> ustr \<times> ustr list \<Rightarrow> skill_rec list" where
  "found_in_category py text_lower entry =
     (case entry of
        (category, skill_list) \<Rightarrow>
          map (\<lambda>skill. \<lparr> skill_name = str_title py skill, skill_category = category \<rparr>)
              (filter (\<lambda>skill. re_search_word py skill text_lower) skill_list))"

definition found_skills :: "pyrt \<Rightarrow> (ustr \<times> ustr list) list \<Rightarrow> ustr \<Rightarrow> skill_rec list" where
  "found_skills py db text_lower = concat (map (found_in_category py text_lower) db)"

text \<open>The loop that removes duplicates, with its set \<open>seen\<close>.\<close>

fun unique_skills :: "pyrt \<Rightarrow> ustr set \<Rightarrow> skill_rec list \<Rightarrow> skill_rec list" where
  "unique_skills py seen [] = []"
| "unique_skills py seen (skill # rest) =
     (let key = str_lower py (skill_name skill)
      in if key \<in> seen then unique_skills py seen rest
         else skill # unique_skills py (insert key seen) rest)"

definition extract_skills_db :: "pyrt \<Rightarrow> (ustr \<times> ustr list) list \<Rightarrow> ustr \<Rightarrow> skill_rec list" where
  "extract_skills_db py db text = unique_skills py {} (found_skills py db (str_lower py text))"

definition extract_skills :: "pyrt \<Rightarrow> ustr \<Rightarrow> skill_rec list" where
  "extract_skills py text = extract_skills_db py skill_database text"

section \<open>Specification-side definitions and concrete inputs\<close>

text \<open>
  The exact-match ratio as the specification words it: both skill lists are lower-cased
  sets, and the ratio is the size of their intersection over the size of the job's set.
\<close>

definition spec_exact :: "pyrt \<Rightarrow> ustr list \<Rightarrow> ustr list \<Rightarrow> real" where
  "spec_exact py R J =
     real (card (set (map (str_lower py) R) \<inter> set (map (str_lower py) J)))
       / real (card (set (map (str_lower py) J)))"

text \<open>A matcher whose two library calls raise, and a pair of PDF libraries of which the
  first finds no text on the only page and ends normally.\<close>

definition failing_models :: JobMatcher where
  "failing_models = \<lparr> sentence_model = (\<lambda>a b. None), tfidf_vectorizer = (\<lambda>a b. None) \<rparr>"

definition empty_primary :: pdf_libs where
  "empty_primary = \<lparr> pdfplumber_run = (\<lambda>f. ([None], None)),
                     pypdf2_run = (\<lambda>f. ([u ''Jane Doe''], None)) \<rparr>"




text \<open>
  The record-by-record reading of "duplicates collapse to the first occurrence": keep a
  record, drop every later record with the same key, go on with the rest.
\<close>

fun first_occurrences :: "('a \<Rightarrow> 'k) \<Rightarrow> 'a list \<Rightarrow> 'a list" where
  "first_occurrences key [] = []"
| "first_occurrences key (x # xs) = x # first_occurrences key (filter (\<lambda>y. key y \<noteq> key x) xs)"


section \<open>Evaluation rules\<close>

lemma u_simps: "u [] = []" "u (c # cs) = of_char c # u cs"
  by (simp_all add: u_def)

lemmas ascii_defs = ascii_rt_def ascii_lower_def ascii_upper_def ascii_lowercase_def ascii_word_def
  ascii_digit_def ascii_space_def

lemmas experience_eval = calculate_experience_match_def match_range_at_def is_digit_def
  exp_sep_def hyphen_only_def en_dash_def py_int_def range_score_def keyword_score_def
  sublist_code

lemmas word_eval = re_search_word_def word_match_here_def

section \<open>Rounding to the nearest integer\<close>

lemma rhe_cases: "round_half_even x = \<lfloor>x\<rfloor> \<or> round_half_even x = \<lfloor>x\<rfloor> + 1"
  by (simp add: round_half_even_def Let_def)



lemma rhe_of_int [simp]: "round_half_even (of_int k) = k"
  by (simp add: round_half_even_def)

lemma rhe_mono:
  assumes "x \<le> y"
  shows "round_half_even x \<le> round_half_even y"
proof (cases "\<lfloor>x\<rfloor> = \<lfloor>y\<rfloor>")
  case True
  then show ?thesis using assms
    by (auto simp: round_half_even_def Let_def)
next
  case False
  have "\<lfloor>x\<rfloor> \<le> \<lfloor>y\<rfloor>" using assms by (rule floor_mono)
  with False have "\<lfloor>x\<rfloor> + 1 \<le> \<lfloor>y\<rfloor>" by simp
  moreover have "round_half_even x \<le> \<lfloor>x\<rfloor> + 1" using rhe_cases[of x] by auto
  moreover have "\<lfloor>y\<rfloor> \<le> round_half_even y" using rhe_cases[of y] by auto
  ultimately show ?thesis by linarith
qed

lemma rhe_ge: "of_int a \<le> x \<Longrightarrow> a \<le> round_half_even x"
  using rhe_mono[of "of_int a" x] by simp

lemma rhe_le: "x \<le> of_int b \<Longrightarrow> round_half_even x \<le> b"
  using rhe_mono[of x "of_int b"] by simp

lemma rhe_minus: "round_half_even (- x) = - round_half_even x"
proof (cases "x = of_int \<lfloor>x\<rfloor>")
  case True
  then obtain k where "x = of_int k" by blast
  then show ?thesis using rhe_of_int[of "- k"] by simp
next
  case False
  then have lt: "of_int \<lfloor>x\<rfloor> < x" using of_int_floor_le[of x] by linarith
  have fl: "\<lfloor>- x\<rfloor> = - \<lfloor>x\<rfloor> - 1"
  proof (rule floor_unique)
    show "of_int (- \<lfloor>x\<rfloor> - 1) \<le> - x" by simp linarith
    show "- x < of_int (- \<lfloor>x\<rfloor> - 1) + 1" using lt by simp
  qed
  show ?thesis
    unfolding round_half_even_def Let_def fl using lt by auto
qed

section \<open>Rounding to binary64\<close>

lemma binade_minus [simp]: "binade (- x) = binade x"
  by (simp add: binade_def)

lemma ulp64_minus [simp]: "ulp64 (- x) = ulp64 x"
  by (simp add: ulp64_def)

lemma ulp64_pos [simp]: "0 < ulp64 x"
  by (simp add: ulp64_def)

lemma fl64_zero [simp]: "fl64 0 = 0"
  by (simp add: fl64_def)

lemma fl64_minus: "fl64 (- x) = - fl64 x"
  by (simp add: fl64_def rhe_minus)

lemma fl64_nonneg: "0 \<le> x \<Longrightarrow> 0 \<le> fl64 x"
proof -
  assume "0 \<le> x"
  then have "0 \<le> x / ulp64 x" by (intro divide_nonneg_pos ulp64_pos)
  then have "0 \<le> round_half_even (x / ulp64 x)" using rhe_ge[of 0] by simp
  then have "0 \<le> of_int (round_half_even (x / ulp64 x)) * ulp64 x"
    by (intro mult_nonneg_nonneg) (simp_all add: less_imp_le)
  then show ?thesis by (simp add: fl64_def)
qed

lemma two_powr_ulp_53: "2 powr of_int (binade x + 1) = 2 ^ 53 * ulp64 x"
proof -
  have "real_of_int (binade x + 1) = 53 + real_of_int (binade x - 52)" by simp
  then have "(2::real) powr of_int (binade x + 1) = 2 powr 53 * 2 powr of_int (binade x - 52)"
    by (simp only: powr_add)
  then show ?thesis by (simp add: ulp64_def)
qed

lemma two_powr_ulp_52: "2 powr of_int (binade x) = 2 ^ 52 * ulp64 x"
proof -
  have "real_of_int (binade x) = 52 + real_of_int (binade x - 52)" by simp
  then have "(2::real) powr of_int (binade x) = 2 powr 52 * 2 powr of_int (binade x - 52)"
    by (simp only: powr_add)
  then show ?thesis by (simp add: ulp64_def)
qed

lemma binade_upper:
  assumes "x \<noteq> 0"
  shows "\<bar>x\<bar> < 2 powr of_int (binade x + 1)"
proof -
  have "log 2 \<bar>x\<bar> < of_int (\<lfloor>log 2 \<bar>x\<bar>\<rfloor> + 1)" by linarith
  also have "\<dots> \<le> of_int (binade x + 1)" by (simp add: binade_def)
  finally have "2 powr log 2 \<bar>x\<bar> < 2 powr of_int (binade x + 1)" by simp
  then show ?thesis using assms by simp
qed

lemma binade_lower:
  assumes "x \<noteq> 0" "- 1022 < binade x"
  shows "2 powr of_int (binade x) \<le> \<bar>x\<bar>"
proof -
  have "binade x = \<lfloor>log 2 \<bar>x\<bar>\<rfloor>" using assms(2) by (simp add: binade_def max_def split: if_splits)
  then have "of_int (binade x) \<le> log 2 \<bar>x\<bar>" by simp
  then have "2 powr of_int (binade x) \<le> 2 powr log 2 \<bar>x\<bar>" by simp
  then show ?thesis using assms by simp
qed

lemma binade_mono:
  assumes "0 < x" "x \<le> y"
  shows "binade x \<le> binade y"
proof -
  have "log 2 \<bar>x\<bar> \<le> log 2 \<bar>y\<bar>" using assms by simp
  then have "\<lfloor>log 2 \<bar>x\<bar>\<rfloor> \<le> \<lfloor>log 2 \<bar>y\<bar>\<rfloor>" by (rule floor_mono)
  then show ?thesis by (simp add: binade_def)
qed

lemma binade_eq:
  assumes "2 powr of_int e \<le> \<bar>x\<bar>" "\<bar>x\<bar> < 2 powr of_int (e + 1)" "- 1022 \<le> e"
  shows "binade x = e"
proof -
  have pos: "0 < \<bar>x\<bar>" using assms(1) by (smt (verit) powr_gt_zero)
  have "of_int e \<le> log 2 \<bar>x\<bar>" using assms(1) pos by (simp add: le_log_iff)
  moreover have "log 2 \<bar>x\<bar> < of_int e + 1" using assms(2) pos by (simp add: log_less_iff)
  ultimately have "\<lfloor>log 2 \<bar>x\<bar>\<rfloor> = e" by (intro floor_unique) auto
  then show ?thesis using assms(3) by (simp add: binade_def)
qed

lemma binade_subnormal:
  assumes "x \<noteq> 0" "\<bar>x\<bar> < 2 powr of_int (- 1021)"
  shows "binade x = - 1022"
proof -
  have pos: "0 < \<bar>x\<bar>" using assms(1) by simp
  have "log 2 \<bar>x\<bar> < of_int (- 1021)" using assms(2) pos by (simp add: log_less_iff)
  then have "\<lfloor>log 2 \<bar>x\<bar>\<rfloor> < - 1021" by (simp add: floor_less_iff)
  then show ?thesis by (simp add: binade_def)
qed

lemma fl64_upper:
  assumes "0 < x"
  shows "fl64 x \<le> 2 powr of_int (binade x + 1)"
proof -
  have "x < 2 powr of_int (binade x + 1)" using binade_upper[of x] assms by simp
  then have "x < 2 ^ 53 * ulp64 x" by (simp only: two_powr_ulp_53)
  then have "x / ulp64 x \<le> of_int (2 ^ 53)" by (simp add: field_simps)
  then have "round_half_even (x / ulp64 x) \<le> 2 ^ 53" by (rule rhe_le)
  then have "real_of_int (round_half_even (x / ulp64 x)) \<le> 2 ^ 53"
    by (metis of_int_le_iff of_int_numeral of_int_power)
  then have "of_int (round_half_even (x / ulp64 x)) * ulp64 x \<le> 2 ^ 53 * ulp64 x"
    by (intro mult_right_mono) (simp_all add: less_imp_le)
  then have "of_int (round_half_even (x / ulp64 x)) * ulp64 x \<le> 2 powr of_int (binade x + 1)"
    by (simp only: two_powr_ulp_53)
  then show ?thesis using assms by (simp add: fl64_def)
qed

lemma fl64_lower:
  assumes "0 < x" "- 1022 < binade x"
  shows "2 powr of_int (binade x) \<le> fl64 x"
proof -
  have "2 powr of_int (binade x) \<le> x" using binade_lower[of x] assms by simp
  then have "2 ^ 52 * ulp64 x \<le> x" by (simp only: two_powr_ulp_52)
  then have "of_int (2 ^ 52) \<le> x / ulp64 x" by (simp add: field_simps)
  then have "2 ^ 52 \<le> round_half_even (x / ulp64 x)" by (rule rhe_ge)
  then have "2 ^ 52 \<le> real_of_int (round_half_even (x / ulp64 x))"
    by (metis of_int_le_iff of_int_numeral of_int_power)
  then have "2 ^ 52 * ulp64 x \<le> of_int (round_half_even (x / ulp64 x)) * ulp64 x"
    by (intro mult_right_mono) (simp_all add: less_imp_le)
  then have "2 powr of_int (binade x) \<le> of_int (round_half_even (x / ulp64 x)) * ulp64 x"
    by (simp only: two_powr_ulp_52)
  then show ?thesis using assms by (simp add: fl64_def)
qed

lemma fl64_mono_pos:
  assumes "0 < x" "x \<le> y"
  shows "fl64 x \<le> fl64 y"
proof (cases "binade x = binade y")
  case True
  then have u: "ulp64 x = ulp64 y" by (simp add: ulp64_def)
  have "x / ulp64 y \<le> y / ulp64 y" using assms by (intro divide_right_mono) (simp_all add: less_imp_le)
  then have "round_half_even (x / ulp64 y) \<le> round_half_even (y / ulp64 y)" by (rule rhe_mono)
  then have "of_int (round_half_even (x / ulp64 y)) * ulp64 y \<le> of_int (round_half_even (y / ulp64 y)) * ulp64 y"
    by (intro mult_right_mono) (simp_all add: less_imp_le)
  then show ?thesis using assms u by (simp add: fl64_def)
next
  case False
  have "binade x \<le> binade y" using assms by (rule binade_mono)
  with False have lt: "binade x + 1 \<le> binade y" by simp
  have "- 1022 \<le> binade x" by (simp add: binade_def)
  with lt have "- 1022 < binade y" by simp
  then have "2 powr of_int (binade y) \<le> fl64 y" using assms by (intro fl64_lower) auto
  moreover have "fl64 x \<le> 2 powr of_int (binade x + 1)" using assms by (intro fl64_upper)
  moreover have "2 powr of_int (binade x + 1) \<le> (2::real) powr of_int (binade y)"
    using lt by (simp only: powr_le_cancel_iff of_int_le_iff)
  ultimately show ?thesis by linarith
qed

lemma fl64_mono:
  assumes "x \<le> y"
  shows "fl64 x \<le> fl64 y"
proof -
  consider "0 < x" | "x \<le> 0" "0 \<le> y" | "y < 0" by linarith
  then show ?thesis
  proof cases
    case 1
    then show ?thesis using assms by (rule fl64_mono_pos)
  next
    case 2
    have "0 \<le> fl64 y" using 2 by (intro fl64_nonneg)
    moreover have "0 \<le> fl64 (- x)" using 2 by (intro fl64_nonneg) simp
    ultimately show ?thesis by (simp add: fl64_minus)
  next
    case 3
    have "fl64 (- y) \<le> fl64 (- x)" using 3 assms by (intro fl64_mono_pos) auto
    then show ?thesis by (simp add: fl64_minus)
  qed
qed

lemma two_powr_nat_diff: "(2::real) powr of_int (int k - int n) = 2 ^ k / 2 ^ n"
proof -
  have "(2::real) powr of_int (int k - int n) = 2 powr (real k - real n)" by simp
  also have "\<dots> = 2 powr real k / 2 powr real n" by (rule powr_diff)
  finally show ?thesis by (simp add: powr_realpow)
qed

lemma fl64_of_binade:
  assumes "x \<noteq> 0" "binade x = int 52 - int n"
  shows "fl64 x = of_int (round_half_even (x * 2 ^ n)) / 2 ^ n"
proof -
  have "binade x - 52 = int 0 - int n" using assms(2) by simp
  then have "ulp64 x = 2 powr of_int (int 0 - int n)" by (simp only: ulp64_def)
  also have "\<dots> = 2 ^ 0 / 2 ^ n" by (rule two_powr_nat_diff)
  finally have u: "ulp64 x = 1 / 2 ^ n" by (simp only: power_0)
  have "fl64 x = of_int (round_half_even (x / (1 / 2 ^ n))) * (1 / 2 ^ n)"
    using assms(1) by (simp only: fl64_def u if_False)
  then show ?thesis by (simp only: divide_divide_eq_right times_divide_eq_right mult_1 div_by_1 mult_1_right)
qed

lemma fl64_eval:
  assumes "0 < x" "2 ^ 52 \<le> x * 2 ^ n" "x * 2 ^ n < 2 ^ 53" "n \<le> 1074"
  shows "fl64 x = of_int (round_half_even (x * 2 ^ n)) / 2 ^ n"
proof -
  have pos: "(0::real) < 2 ^ n" by simp
  have ax: "\<bar>x\<bar> = x" using assms(1) by simp
  have "(2::real) ^ 52 / 2 ^ n \<le> x" using assms(2) by (simp only: pos_divide_le_eq[OF pos])
  then have lo: "2 powr of_int (int 52 - int n) \<le> \<bar>x\<bar>"
    by (simp only: two_powr_nat_diff ax)
  have e1: "int 52 - int n + 1 = int 53 - int n" by simp
  have "x < (2::real) ^ 53 / 2 ^ n" using assms(3) by (simp only: pos_less_divide_eq[OF pos])
  then have hi: "\<bar>x\<bar> < 2 powr of_int (int 52 - int n + 1)"
    by (simp only: e1 two_powr_nat_diff ax)
  have "- 1022 \<le> int 52 - int n" using assms(4) by simp
  with lo hi have "binade x = int 52 - int n" by (rule binade_eq)
  moreover have "x \<noteq> 0" using assms(1) by simp
  ultimately show ?thesis by (intro fl64_of_binade)
qed

lemma fl64_eval_sub:
  assumes "0 < x" "x * 2 ^ 1074 < 2 ^ 52"
  shows "fl64 x = of_int (round_half_even (x * 2 ^ 1074)) / 2 ^ 1074"
proof -
  have pos: "(0::real) < 2 ^ 1074" by (rule zero_less_power) simp
  have ax: "\<bar>x\<bar> = x" using assms(1) by simp
  have e1: "(- 1021 :: int) = int 53 - int 1074" by simp
  have "(2::real) ^ 52 < 2 ^ 53" by (rule power_strict_increasing) simp_all
  with assms(2) have "x * 2 ^ 1074 < 2 ^ 53" by (rule less_trans)
  then have "x < (2::real) ^ 53 / 2 ^ 1074" by (simp only: pos_less_divide_eq[OF pos])
  then have "\<bar>x\<bar> < 2 powr of_int (int 53 - int 1074)"
    by (simp only: two_powr_nat_diff ax)
  then have "\<bar>x\<bar> < 2 powr of_int (- 1021)" by (simp only: e1)
  moreover have x0: "x \<noteq> 0" using assms(1) by simp
  ultimately have "binade x = - 1022" by (intro binade_subnormal)
  moreover have "(- 1022 :: int) = int 52 - int 1074" by simp
  ultimately have "binade x = int 52 - int 1074" by (simp only:)
  with x0 show ?thesis by (rule fl64_of_binade)
qed

lemma fl64_half: "fl64 (1 / 2) = 1 / 2"
  by (subst fl64_eval[where n = 53]) (simp_all add: round_half_even_def)

lemma fl64_one: "fl64 1 = 1"
  by (subst fl64_eval[where n = 52]) (simp_all add: round_half_even_def)

lemma fl64_hundred: "fl64 100 = 100"
  by (subst fl64_eval[where n = 46]) (simp_all add: round_half_even_def)

section \<open>Facts about floats\<close>

lemma fl64_unit: "0 \<le> x \<Longrightarrow> x \<le> 1 \<Longrightarrow> 0 \<le> fl64 x \<and> fl64 x \<le> 1"
  using fl64_nonneg[of x] fl64_mono[of x 1] by (simp add: fl64_one)

lemma fl64_le_half: "x \<le> 1 / 2 \<Longrightarrow> fl64 x \<le> 1 / 2"
  using fl64_mono[of x "1 / 2"] by (simp add: fl64_half)

lemma fl64_1_10: "fl64 (1 / 10) = 3602879701896397 / 2 ^ 55"
  by (subst fl64_eval[where n = 56]) (simp_all add: round_half_even_def)

lemma fl64_2_10: "fl64 (2 / 10) = 3602879701896397 / 2 ^ 54"
  by (subst fl64_eval[where n = 55]) (simp_all add: round_half_even_def)

lemma fl64_3_10: "fl64 (3 / 10) = 5404319552844595 / 2 ^ 54"
  by (subst fl64_eval[where n = 54]) (simp_all add: round_half_even_def)

lemma fl64_7_10: "fl64 (7 / 10) = 3152519739159347 / 2 ^ 52"
  by (subst fl64_eval[where n = 53]) (simp_all add: round_half_even_def)

text \<open>Dividing by an integer that is not smaller in size raises nothing.\<close>

lemma py_truediv_small:
  assumes "b \<noteq> 0" "\<bar>a\<bar> \<le> \<bar>b\<bar>"
  shows "py_truediv a b = Inr (fl64 (real_of_int a / real_of_int b))"
proof -
  define T :: real where "T = 2 ^ 1024 - 2 ^ 970"
  have t: "1 < T" unfolding T_def by simp
  have q: "\<bar>real_of_int a / real_of_int b\<bar> \<le> 1" using assms by (simp add: field_simps)
  have n: "\<not> T \<le> \<bar>real_of_int a / real_of_int b\<bar>" using q t by linarith
  have "py_truediv a b =
          (if b = 0 then Inl ZeroDivisionError
           else if T \<le> \<bar>real_of_int a / real_of_int b\<bar> then Inl OverflowError
           else Inr (fl64 (real_of_int a / real_of_int b)))"
    unfolding py_truediv_def T_def by (rule refl)
  then show ?thesis using n assms(1) by simp
qed


lemma py_round2_bounds:
  assumes "0 \<le> x" "x \<le> 100"
  shows "0 \<le> py_round2 x \<and> py_round2 x \<le> 100"
proof -
  have "0 \<le> round_half_even (x * 100)" using assms by (intro rhe_ge) simp
  then have lo: "(0::real) \<le> of_int (round_half_even (x * 100)) / 100" by simp
  have "round_half_even (x * 100) \<le> 10000" using assms by (intro rhe_le) simp
  then have "real_of_int (round_half_even (x * 100)) \<le> 10000" by linarith
  then have hi: "of_int (round_half_even (x * 100)) / 100 \<le> (100::real)" by simp
  show ?thesis unfolding py_round2_def
    using fl64_nonneg[OF lo] fl64_mono[OF hi] by (simp add: fl64_hundred)
qed

text \<open>
  The rounding follows the floats, not the reals they approximate: for the float nearest
  to 0.00065 the product with 100 is the float nearest to 0.065, which lies above 0.065
  and rounds to 0.07, although 100 times the exact value of that float is below 0.065.
\<close>

lemma py_round2_follows_doubles:
  "fmul (fl64 (65 / 100000)) 100 = 1170935903116329 / 2 ^ 54"
  "py_round2 (fmul (fl64 (65 / 100000)) 100) = fl64 (7 / 100)"
  "fl64 (65 / 100000) * 100 < 65 / 1000"
proof -
  have x: "fl64 (65 / 100000) = 1498797955988901 / 2 ^ 61"
    by (subst fl64_eval[where n = 63]) (simp_all add: round_half_even_def)
  show y: "fmul (fl64 (65 / 100000)) 100 = 1170935903116329 / 2 ^ 54"
    unfolding fmul_def x by (subst fl64_eval[where n = 56]) (simp_all add: round_half_even_def)
  show "py_round2 (fmul (fl64 (65 / 100000)) 100) = fl64 (7 / 100)"
    unfolding y py_round2_def by (simp add: round_half_even_def)
  show "fl64 (65 / 100000) * 100 < 65 / 1000" unfolding x by simp
qed

section \<open>The score combiner\<close>

lemma float_weighted_sum_five:
  "float_weighted_sum spec_weights [a, b, c, d, e] =
     fadd (fadd (fadd (fadd (fmul a (1 / 2)) (fmul b (fl64 (2 / 10)))) (fmul c (fl64 (1 / 10))))
                (fmul d (fl64 (1 / 10))))
          (fmul e (fl64 (1 / 10)))"
  by (simp add: float_weighted_sum_def spec_weights_def fl64_half)



section \<open>Range of the scores\<close>

text \<open>
  Claim C2, at a failing input. The candidate expects 100000 to 150000 and the job states
  only a maximum of 160000: \<open>user_max_salary >= job_min_salary\<close> compares an integer with
  \<open>None\<close>, so the salary sub-scorer, and with it \<open>calculate_match_score\<close>, raises
  \<open>TypeError\<close> instead of returning a score in the range.
\<close>

theorem match_score_raises_without_job_minimum:
  "calculate_salary_match (Some 100000) (Some 150000) None (Some 160000) = Inl TypeError
   \<and> calculate_match_score self py resume
        (job\<lparr> salary_min := None, salary_max := Some 160000 \<rparr>)
        (Some \<lparr> pref_location = loc, min_salary = Some 100000, max_salary = Some 150000 \<rparr>)
      = Inl TypeError"
  by (simp add: calculate_match_score_def calculate_salary_match_def ranges_overlap_def py_ge_def
      pref_get_def Let_def)

text \<open>
  Wherever the salary sub-scorer returns and the candidate's minimum is not negative, the
  bounds of claim C2 hold; the following lemmas show it. The lexical similarity is taken
  to be non-negative, as a cosine of vectors without negative entries is.
\<close>

lemma salary_neutral:
  "py_not user_min_salary \<or> py_not job_max_salary \<Longrightarrow>
   calculate_salary_match user_min_salary user_max_salary job_min_salary job_max_salary = Inr (1 / 2)"
  by (auto simp: calculate_salary_match_def py_not_def split: option.splits)

lemma skill_match_bounds:
  assumes "\<And>a b v. tfidf_vectorizer self a b = Some v \<Longrightarrow> 0 \<le> v"
  shows "0 \<le> calculate_skill_match self py rs js \<and> calculate_skill_match self py rs js \<le> 1"
proof -
  have t: "0 \<le> (case tfidf_vectorizer self a b of Some v \<Rightarrow> v | None \<Rightarrow> fl64 (real n / real m))" for a b n m
    using assms fl64_nonneg[of "real n / real m"] by (cases "tfidf_vectorizer self a b") auto
  have w: "0 \<le> fl64 (7 / 10)" "0 \<le> fl64 (3 / 10)" by (simp_all add: fl64_nonneg)
  have "0 \<le> fadd (fmul x (fl64 (7 / 10))) (fmul y (fl64 (3 / 10)))" if "0 \<le> x" "0 \<le> y" for x y
    unfolding fadd_def fmul_def using that by (intro fl64_nonneg add_nonneg_nonneg mult_nonneg_nonneg) simp_all
  then show ?thesis
    using t by (simp add: calculate_skill_match_def Let_def fl64_nonneg)
qed

lemma semantic_bounds:
  "0 \<le> calculate_semantic_similarity self a b \<and> calculate_semantic_similarity self a b \<le> 1"
  by (simp add: calculate_semantic_similarity_def split: option.splits)

lemma range_score_bounds: "0 \<le> range_score y mn mx \<and> range_score y mn mx \<le> 1"
proof -
  have "fl64 (real y / real mn) \<le> 1" if "y < mn"
    using that fl64_unit[of "real y / real mn"] by simp
  moreover have "0 \<le> fl64 (9 / 10) \<and> fl64 (9 / 10) \<le> 1" by (intro fl64_unit) simp_all
  ultimately show ?thesis by (auto simp: range_score_def)
qed

lemma keyword_score_bounds: "0 \<le> keyword_score y l \<and> keyword_score y l \<le> 1"
proof -
  have "0 \<le> fl64 (7 / 10) \<and> fl64 (7 / 10) \<le> 1" by (intro fl64_unit) simp_all
  moreover have "0 \<le> fl64 (6 / 10) \<and> fl64 (6 / 10) \<le> 1" by (intro fl64_unit) simp_all
  ultimately show ?thesis by (simp add: keyword_score_def)
qed

lemma experience_bounds:
  "0 \<le> calculate_experience_match py es r \<and> calculate_experience_match py es r \<le> 1"
  using range_score_bounds keyword_score_bounds
  by (simp add: calculate_experience_match_def Let_def split: option.splits)

lemma location_bounds:
  "0 \<le> calculate_location_match py a b \<and> calculate_location_match py a b \<le> 1"
proof -
  have "0 \<le> fl64 (8 / 10) \<and> fl64 (8 / 10) \<le> 1" by (intro fl64_unit) simp_all
  then show ?thesis by (simp add: calculate_location_match_def Let_def split: option.splits)
qed

lemma penalty_bounds:
  assumes "0 \<le> q"
  shows "0 \<le> max 0 (fsub (1 / 2) (min q (1 / 2)))"
    and "max 0 (fsub (1 / 2) (min q (1 / 2))) \<le> 1 / 2"
proof -
  have "1 / 2 - min q (1 / 2) \<le> 1 / 2" using assms by simp
  then have "fsub (1 / 2) (min q (1 / 2)) \<le> 1 / 2" unfolding fsub_def by (rule fl64_le_half)
  then show "max 0 (fsub (1 / 2) (min q (1 / 2))) \<le> 1 / 2" by simp
qed simp

lemma salary_too_high:
  assumes "b < a" "a \<noteq> 0" "b \<noteq> 0"
  shows "calculate_salary_match (Some a) umax jmin (Some b) =
           (case py_truediv (a - b) a of
              Inl e \<Rightarrow> Inl e
            | Inr q \<Rightarrow> Inr (max 0 (fsub (1 / 2) (min q (1 / 2)))))"
  using assms by (simp add: calculate_salary_match_def ranges_overlap_def Let_def split: sum.splits)

lemma salary_bounds:
  assumes "calculate_salary_match umin umax jmin jmax = Inr v" "\<forall>a. umin = Some a \<longrightarrow> 0 \<le> a"
  shows "0 \<le> v \<and> v \<le> 1"
proof (cases "py_not umin \<or> py_not jmax")
  case True
  then show ?thesis using assms(1) salary_neutral[OF True] by simp
next
  case False
  then obtain a b where ab: "umin = Some a" "jmax = Some b" "a \<noteq> 0" "b \<noteq> 0"
    by (auto simp: py_not_def)
  with assms(2) have pos: "0 < a" by auto
  show ?thesis
  proof (cases "b < a")
    case True
    from assms(1) ab salary_too_high[OF True ab(3) ab(4)]
    obtain q where q: "py_truediv (a - b) a = Inr q" "v = max 0 (fsub (1 / 2) (min q (1 / 2)))"
      by (auto split: sum.splits)
    have "q = fl64 (real_of_int (a - b) / real_of_int a)"
      using q(1) by (auto simp: py_truediv_def split: if_splits)
    moreover have "0 \<le> real_of_int (a - b) / real_of_int a" using True pos by simp
    ultimately have "0 \<le> q" by (simp only: fl64_nonneg)
    with penalty_bounds[of q] q(2) show ?thesis by (intro conjI; linarith)
  next
    case False
    have "0 \<le> fl64 (3 / 10) \<and> fl64 (3 / 10) \<le> 1" by (intro fl64_unit) simp_all
    moreover have "v = 1 \<or> v = fl64 (3 / 10)"
      using False assms(1) ab
      by (auto simp: calculate_salary_match_def Let_def split: sum.splits if_splits)
    ultimately show ?thesis by auto
  qed
qed

lemma fmul_le:
  assumes "0 \<le> s" "s \<le> 1" "0 \<le> w" "fl64 w = w"
  shows "0 \<le> fmul s w \<and> fmul s w \<le> w"
proof -
  have "s * w \<le> w" using assms by (simp add: mult_left_le_one_le)
  then have "fl64 (s * w) \<le> fl64 w" by (rule fl64_mono)
  moreover have "0 \<le> fl64 (s * w)" using assms by (intro fl64_nonneg mult_nonneg_nonneg)
  ultimately show ?thesis using assms(4) by (simp add: fmul_def)
qed

lemma fadd_le:
  assumes "0 \<le> x" "x \<le> X" "0 \<le> y" "y \<le> Y" "fl64 (X + Y) = Z"
  shows "0 \<le> fadd x y \<and> fadd x y \<le> Z"
proof -
  have "fl64 (x + y) \<le> fl64 (X + Y)" using assms by (intro fl64_mono) simp
  moreover have "0 \<le> fl64 (x + y)" using assms by (intro fl64_nonneg) simp
  ultimately show ?thesis using assms(5) by (simp add: fadd_def)
qed

lemma fl64_fix_w2: "fl64 (3602879701896397 / 2 ^ 54) = 3602879701896397 / 2 ^ 54"
  by (subst fl64_eval[where n = 55]) (simp_all add: round_half_even_def)

lemma fl64_fix_w1: "fl64 (3602879701896397 / 2 ^ 55) = 3602879701896397 / 2 ^ 55"
  by (subst fl64_eval[where n = 56]) (simp_all add: round_half_even_def)

lemma weights_chain:
  "fl64 (1 / 2 + 3602879701896397 / 2 ^ 54) = 3152519739159347 / 2 ^ 52"
  "fl64 (3152519739159347 / 2 ^ 52 + 3602879701896397 / 2 ^ 55) = 7205759403792793 / 2 ^ 53"
  "fl64 (7205759403792793 / 2 ^ 53 + 3602879701896397 / 2 ^ 55) = 2026619832316723 / 2 ^ 51"
  "fl64 (2026619832316723 / 2 ^ 51 + 3602879701896397 / 2 ^ 55) = 9007199254740991 / 2 ^ 53"
  by (subst fl64_eval[where n = 53]; simp add: round_half_even_def)+

lemma weighted_bounds:
  assumes "0 \<le> a \<and> a \<le> 1" "0 \<le> b \<and> b \<le> 1" "0 \<le> c \<and> c \<le> 1" "0 \<le> d \<and> d \<le> 1" "0 \<le> e \<and> e \<le> 1"
  shows "0 \<le> fmul (float_weighted_sum spec_weights [a, b, c, d, e]) 100
       \<and> fmul (float_weighted_sum spec_weights [a, b, c, d, e]) 100 \<le> 100"
proof -
  have p1: "0 \<le> fmul a (1 / 2) \<and> fmul a (1 / 2) \<le> 1 / 2"
    using assms(1) by (intro fmul_le fl64_half) simp_all
  have p2: "0 \<le> fmul b (fl64 (2 / 10)) \<and> fmul b (fl64 (2 / 10)) \<le> 3602879701896397 / 2 ^ 54"
    unfolding fl64_2_10 using assms(2) by (intro fmul_le fl64_fix_w2) simp_all
  have p3: "0 \<le> fmul x (fl64 (1 / 10)) \<and> fmul x (fl64 (1 / 10)) \<le> 3602879701896397 / 2 ^ 55"
    if "0 \<le> x \<and> x \<le> 1" for x
    unfolding fl64_1_10 using that by (intro fmul_le fl64_fix_w1) simp_all
  have s1: "0 \<le> fadd (fmul a (1 / 2)) (fmul b (fl64 (2 / 10)))
          \<and> fadd (fmul a (1 / 2)) (fmul b (fl64 (2 / 10))) \<le> 3152519739159347 / 2 ^ 52"
    using p1 p2 by (intro fadd_le[OF _ _ _ _ weights_chain(1)]) simp_all
  have s2: "0 \<le> fadd (fadd (fmul a (1 / 2)) (fmul b (fl64 (2 / 10)))) (fmul c (fl64 (1 / 10)))
          \<and> fadd (fadd (fmul a (1 / 2)) (fmul b (fl64 (2 / 10)))) (fmul c (fl64 (1 / 10)))
              \<le> 7205759403792793 / 2 ^ 53"
    using s1 p3[OF assms(3)] by (intro fadd_le[OF _ _ _ _ weights_chain(2)]) simp_all
  have s3: "0 \<le> fadd (fadd (fadd (fmul a (1 / 2)) (fmul b (fl64 (2 / 10)))) (fmul c (fl64 (1 / 10))))
                     (fmul d (fl64 (1 / 10)))
          \<and> fadd (fadd (fadd (fmul a (1 / 2)) (fmul b (fl64 (2 / 10)))) (fmul c (fl64 (1 / 10))))
                     (fmul d (fl64 (1 / 10))) \<le> 2026619832316723 / 2 ^ 51"
    using s2 p3[OF assms(4)] by (intro fadd_le[OF _ _ _ _ weights_chain(3)]) simp_all
  have s4: "0 \<le> float_weighted_sum spec_weights [a, b, c, d, e]
          \<and> float_weighted_sum spec_weights [a, b, c, d, e] \<le> 9007199254740991 / 2 ^ 53"
    unfolding float_weighted_sum_five
    using s3 p3[OF assms(5)] by (intro fadd_le[OF _ _ _ _ weights_chain(4)]) simp_all
  then have "float_weighted_sum spec_weights [a, b, c, d, e] * 100 \<le> 100" by simp
  then have "fl64 (float_weighted_sum spec_weights [a, b, c, d, e] * 100) \<le> fl64 100" by (rule fl64_mono)
  moreover have "0 \<le> fl64 (float_weighted_sum spec_weights [a, b, c, d, e] * 100)"
    using s4 by (intro fl64_nonneg) simp
  ultimately show ?thesis by (simp add: fmul_def fl64_hundred)
qed

lemma scaled_bounds:
  assumes "0 \<le> s \<and> s \<le> 1"
  shows "0 \<le> py_round2 (fmul s 100) \<and> py_round2 (fmul s 100) \<le> 100"
proof -
  have "s * 100 \<le> 100" using assms by simp
  then have "fl64 (s * 100) \<le> fl64 100" by (rule fl64_mono)
  moreover have "0 \<le> fl64 (s * 100)" using assms by (intro fl64_nonneg) simp
  ultimately show ?thesis by (intro py_round2_bounds) (simp_all add: fmul_def fl64_hundred)
qed

lemma match_score_bounds_when_returned:
  assumes tf: "\<And>a b v. tfidf_vectorizer self a b = Some v \<Longrightarrow> 0 \<le> v"
    and ret: "calculate_match_score self py resume job prefs = Inr r"
    and pos: "\<forall>a. pref_get prefs min_salary = Some a \<longrightarrow> 0 \<le> a"
  shows "0 \<le> match_score r \<and> match_score r \<le> 100
       \<and> 0 \<le> skill_match (breakdown r) \<and> skill_match (breakdown r) \<le> 100
       \<and> 0 \<le> semantic_similarity (breakdown r) \<and> semantic_similarity (breakdown r) \<le> 100
       \<and> 0 \<le> experience_match (breakdown r) \<and> experience_match (breakdown r) \<le> 100
       \<and> 0 \<le> location_match (breakdown r) \<and> location_match (breakdown r) \<le> 100
       \<and> 0 \<le> salary_match (breakdown r) \<and> salary_match (breakdown r) \<le> 100"
proof -
  define sk where "sk = calculate_skill_match self py (map skill_name (skills resume)) (required_skills job)"
  define se where "se = calculate_semantic_similarity self (summary resume) (description job)"
  define ex where "ex = calculate_experience_match py (experience resume) (experience_required job)"
  define lo where "lo = calculate_location_match py (pref_get prefs pref_location) (location job)"
  obtain sa where sa: "calculate_salary_match (pref_get prefs min_salary) (pref_get prefs max_salary)
      (salary_min job) (salary_max job) = Inr sa"
    using ret by (auto simp: calculate_match_score_def Let_def split: sum.splits)
  have r: "r = \<lparr> match_score = py_round2 (fmul (float_weighted_sum spec_weights [sk, se, ex, lo, sa]) 100),
                breakdown = \<lparr> skill_match = py_round2 (fmul sk 100),
                              semantic_similarity = py_round2 (fmul se 100),
                              experience_match = py_round2 (fmul ex 100),
                              location_match = py_round2 (fmul lo 100),
                              salary_match = py_round2 (fmul sa 100) \<rparr> \<rparr>"
    using ret sa
    by (simp add: calculate_match_score_def Let_def sk_def se_def ex_def lo_def float_weighted_sum_five)
  have b1: "0 \<le> sk \<and> sk \<le> 1" unfolding sk_def using tf by (rule skill_match_bounds)
  have b2: "0 \<le> se \<and> se \<le> 1" unfolding se_def by (rule semantic_bounds)
  have b3: "0 \<le> ex \<and> ex \<le> 1" unfolding ex_def by (rule experience_bounds)
  have b4: "0 \<le> lo \<and> lo \<le> 1" unfolding lo_def by (rule location_bounds)
  have b5: "0 \<le> sa \<and> sa \<le> 1" using sa pos by (rule salary_bounds)
  note w = weighted_bounds[OF b1 b2 b3 b4 b5]
  have "0 \<le> match_score r \<and> match_score r \<le> 100"
    using py_round2_bounds[of "fmul (float_weighted_sum spec_weights [sk, se, ex, lo, sa]) 100"] w
    by (simp add: r)
  then show ?thesis
    using scaled_bounds[OF b1] scaled_bounds[OF b2] scaled_bounds[OF b3] scaled_bounds[OF b4]
      scaled_bounds[OF b5] by (simp add: r)
qed

section \<open>The salary sub-scorer\<close>

lemma py_truediv_finite:
  assumes "b \<noteq> 0" "\<bar>real_of_int a / real_of_int b\<bar> < 2 ^ 1024 - 2 ^ 970"
  shows "py_truediv a b = Inr (fl64 (real_of_int a / real_of_int b))"
proof -
  define T :: real where "T = 2 ^ 1024 - 2 ^ 970"
  have n: "\<not> T \<le> \<bar>real_of_int a / real_of_int b\<bar>" using assms(2) unfolding T_def by linarith
  have "py_truediv a b =
          (if b = 0 then Inl ZeroDivisionError
           else if T \<le> \<bar>real_of_int a / real_of_int b\<bar> then Inl OverflowError
           else Inr (fl64 (real_of_int a / real_of_int b)))"
    unfolding py_truediv_def T_def by (rule refl)
  then show ?thesis using n assms(1) by simp
qed

text \<open>A negative expected minimum can give a score above 1.\<close>

lemma salary_negative_example:
  "calculate_salary_match (Some (- 5)) None None (Some (- 10)) = Inr (3 / 2)"
proof -
  have q: "py_truediv 5 (- 5) = Inr (- 1)"
    using py_truediv_small[of "- 5" 5] fl64_minus[of 1] by (simp add: fl64_one)
  have f: "fl64 (3 / 2) = 3 / 2"
    by (subst fl64_eval[where n = 52]) (simp_all add: round_half_even_def)
  show ?thesis
    by (simp add: calculate_salary_match_def ranges_overlap_def Let_def q fsub_def f)
qed

text \<open>
  With an expected minimum of \<open>10^17\<close> and a job maximum one below it, the penalty
  \<open>10^-17\<close> is lost when it is subtracted from 0.5: the score is exactly 0.5.
\<close>

lemma salary_half_attained:
  "calculate_salary_match (Some (10 ^ 17)) None None (Some (10 ^ 17 - 1)) = Inr (1 / 2)"
proof -
  define A :: int where "A = 10 ^ 17"
  define Q :: real where "Q = 6490371073168535 / 2 ^ 109"
  have A: "A - 1 < A" "A \<noteq> 0" "A - 1 \<noteq> 0" "A - (A - 1) = 1" by (simp_all add: A_def)
  have "py_truediv 1 A = Inr (fl64 (real_of_int 1 / real_of_int A))"
    by (rule py_truediv_small) (simp_all add: A_def)
  moreover have "fl64 (real_of_int 1 / real_of_int A) = Q"
    unfolding A_def Q_def by (subst fl64_eval[where n = 109]) (simp_all add: round_half_even_def)
  ultimately have q: "py_truediv (A - (A - 1)) A = Inr Q" by (simp only: A(4))
  have m: "min Q (1 / 2) = Q" by (simp add: Q_def)
  have f: "fsub (1 / 2) Q = 1 / 2"
    unfolding fsub_def Q_def by (subst fl64_eval[where n = 54]) (simp_all add: round_half_even_def)
  have "calculate_salary_match (Some A) None None (Some (A - 1)) =
          (case py_truediv (A - (A - 1)) A of
             Inl e \<Rightarrow> Inl e
           | Inr q \<Rightarrow> Inr (max 0 (fsub (1 / 2) (min q (1 / 2)))))"
    using A(1,2,3) by (rule salary_too_high)
  then have "calculate_salary_match (Some A) None None (Some (A - 1)) = Inr (max 0 (1 / 2))"
    by (simp only: q sum.case m f)
  then show ?thesis by (simp add: A_def)
qed

text \<open>
  Claim C7 as stated fails in two places. Where a salary is present but 0: the candidate's
  minimum is 0 and the job offers up to 100000, so the minimum is present and not above
  the job's maximum, no candidate maximum is given and the overlap from 0 to 100000 is not
  empty; the claim gives 1.0 and the code returns the neutral 0.5. And where the
  candidate's minimum exceeds the job's maximum by very little: for \<open>10^17\<close> against
  \<open>10^17 - 1\<close> the code returns exactly 0.5, which is not in [0, 0.5).
\<close>

theorem salary_zero_minimum_counterexample:
  "(0::int) \<le> 100000 \<and> overlap_start 0 None \<le> overlap_end None 100000
   \<and> calculate_salary_match (Some 0) None None (Some 100000) = Inr (1 / 2)
   \<and> calculate_salary_match (Some 0) None None (Some 100000) \<noteq> Inr 1
   \<and> (10 ^ 17 - 1 :: int) < 10 ^ 17
   \<and> calculate_salary_match (Some (10 ^ 17)) None None (Some (10 ^ 17 - 1)) = Inr (1 / 2)"
  using salary_half_attained
  by (simp add: calculate_salary_match_def overlap_start_def overlap_end_def py_or_def py_not_def)

text \<open>
  Claim C7, amended. A salary of 0 counts as absent for the candidate's minimum, the
  candidate's maximum and the job's maximum. If the candidate's minimum or the job's
  maximum is absent or 0, the result is 0.5. Otherwise the result is 1.0 if candidate-min
  \<open>\<le>\<close> job-max, the candidate's maximum (when present and not 0) is at least the job's
  minimum, and the overlap from max(candidate-min, job-min or 0) to
  min(candidate-max or infinity, job-max) is not empty; else, if candidate-min exceeds
  job-max, it is \<open>max(0, 0.5 - min((candidate_min - job_max)/candidate_min, 0.5))\<close> in float
  arithmetic; otherwise 0.3. When candidate-min exceeds job-max and is positive, the
  result lies in [0, 0.5], both ends included. Two calls are left out: candidate-min
  \<open>\<le>\<close> job-max with a candidate maximum that is not 0 and no job minimum, and a quotient
  too large for a float.
\<close>

theorem salary_match_amended:
  "(umin = None \<or> umin = Some 0 \<or> jmax = None \<or> jmax = Some 0 \<longrightarrow>
      calculate_salary_match umin umax jmin jmax = Inr (1 / 2))
   \<and> (a \<noteq> 0 \<and> b \<noteq> 0
        \<and> (a \<le> b \<longrightarrow> umax = None \<or> umax = Some 0 \<or> jmin \<noteq> None)
        \<and> (b < a \<longrightarrow> \<bar>real_of_int (a - b) / real_of_int a\<bar> < 2 ^ 1024 - 2 ^ 970) \<longrightarrow>
        calculate_salary_match (Some a) umax jmin (Some b) =
          Inr (if a \<le> b
                  \<and> (\<forall>m j. umax = Some m \<and> m \<noteq> 0 \<and> jmin = Some j \<longrightarrow> j \<le> m)
                  \<and> max a (case jmin of None \<Rightarrow> 0 | Some j \<Rightarrow> j)
                      \<le> (case umax of None \<Rightarrow> b | Some m \<Rightarrow> if m = 0 then b else min m b)
               then 1
               else if b < a
               then max 0 (fsub (1 / 2) (min (fl64 (real_of_int (a - b) / real_of_int a)) (1 / 2)))
               else fl64 (3 / 10)))
   \<and> (0 < a \<and> b < a \<and> b \<noteq> 0 \<and> \<bar>real_of_int (a - b) / real_of_int a\<bar> < 2 ^ 1024 - 2 ^ 970 \<longrightarrow>
        (\<exists>v. calculate_salary_match (Some a) umax jmin (Some b) = Inr v \<and> 0 \<le> v \<and> v \<le> 1 / 2))"
proof (intro conjI impI)
  assume "umin = None \<or> umin = Some 0 \<or> jmax = None \<or> jmax = Some 0"
  then show "calculate_salary_match umin umax jmin jmax = Inr (1 / 2)"
    by (intro salary_neutral) (auto simp: py_not_def)
next
  assume h: "a \<noteq> 0 \<and> b \<noteq> 0
        \<and> (a \<le> b \<longrightarrow> umax = None \<or> umax = Some 0 \<or> jmin \<noteq> None)
        \<and> (b < a \<longrightarrow> \<bar>real_of_int (a - b) / real_of_int a\<bar> < 2 ^ 1024 - 2 ^ 970)"
  show "calculate_salary_match (Some a) umax jmin (Some b) =
          Inr (if a \<le> b
                  \<and> (\<forall>m j. umax = Some m \<and> m \<noteq> 0 \<and> jmin = Some j \<longrightarrow> j \<le> m)
                  \<and> max a (case jmin of None \<Rightarrow> 0 | Some j \<Rightarrow> j)
                      \<le> (case umax of None \<Rightarrow> b | Some m \<Rightarrow> if m = 0 then b else min m b)
               then 1
               else if b < a
               then max 0 (fsub (1 / 2) (min (fl64 (real_of_int (a - b) / real_of_int a)) (1 / 2)))
               else fl64 (3 / 10))"
  proof (cases "b < a")
    case True
    with h have "py_truediv (a - b) a = Inr (fl64 (real_of_int (a - b) / real_of_int a))"
      by (intro py_truediv_finite) auto
    then show ?thesis using True h salary_too_high[of b a umax jmin] by simp
  next
    case False
    with h have c: "umax = None \<or> umax = Some 0 \<or> jmin \<noteq> None" by auto
    from False h c show ?thesis
      by (cases umax; cases jmin)
         (auto simp: calculate_salary_match_def ranges_overlap_def py_ge_def overlap_start_def
            overlap_end_def py_not_def py_or_def Let_def)
  qed
next
  assume h: "0 < a \<and> b < a \<and> b \<noteq> 0 \<and> \<bar>real_of_int (a - b) / real_of_int a\<bar> < 2 ^ 1024 - 2 ^ 970"
  then have "py_truediv (a - b) a = Inr (fl64 (real_of_int (a - b) / real_of_int a))"
    by (intro py_truediv_finite) auto
  then have "calculate_salary_match (Some a) umax jmin (Some b) =
               Inr (max 0 (fsub (1 / 2) (min (fl64 (real_of_int (a - b) / real_of_int a)) (1 / 2))))"
    using h salary_too_high[of b a umax jmin] by simp
  moreover have "0 \<le> fl64 (real_of_int (a - b) / real_of_int a)"
    using h by (intro fl64_nonneg) simp
  ultimately show "\<exists>v. calculate_salary_match (Some a) umax jmin (Some b) = Inr v \<and> 0 \<le> v \<and> v \<le> 1 / 2"
    using penalty_bounds[of "fl64 (real_of_int (a - b) / real_of_int a)"] by blast
qed

text \<open>
  Witness for C7: no job maximum gives 0.5; the overlapping ranges 100000..150000 and
  120000..160000 give 1.0; a minimum of 200000 against a maximum of 100000, with a
  candidate maximum and no job minimum, gives a value in [0, 0.5], namely 0.
\<close>

theorem salary_match_amended_witness:
  "calculate_salary_match (Some 100000) (Some 150000) (Some 120000) None = Inr (1 / 2)
   \<and> calculate_salary_match (Some 100000) (Some 150000) (Some 120000) (Some 160000) = Inr 1
   \<and> (0::int) < 200000 \<and> (100000::int) < 200000
   \<and> calculate_salary_match (Some 200000) (Some 250000) None (Some 100000) = Inr 0"
  using salary_match_amended[where umin = "Some 100000" and jmax = None and umax = "Some 150000"
      and jmin = "Some 120000" and a = 100000 and b = 160000]
    salary_match_amended[where umin = None and jmax = None and umax = "Some 250000"
      and jmin = None and a = 200000 and b = 100000]
  by (simp add: fl64_half fsub_def)

text \<open>
  Claim C10. A candidate minimum or a job maximum that is present but 0 gives the neutral
  value 0.5, which is the result for the same call with that salary absent; and a job
  minimum of 0 gives the same start of the overlap as an absent one, hence the same result
  wherever the call with the absent job minimum returns (the candidate's maximum absent or 0).
\<close>

theorem salary_zero_as_absent:
  "(umin = Some 0 \<or> jmax = Some 0 \<longrightarrow> calculate_salary_match umin umax jmin jmax = Inr (1 / 2))
   \<and> calculate_salary_match (Some 0) umax jmin jmax = calculate_salary_match None umax jmin jmax
   \<and> calculate_salary_match umin umax jmin (Some 0) = calculate_salary_match umin umax jmin None
   \<and> overlap_start a (Some 0) = overlap_start a None
   \<and> (umax = None \<or> umax = Some 0 \<longrightarrow>
        calculate_salary_match umin umax (Some 0) jmax = calculate_salary_match umin umax None jmax)"
proof (intro conjI impI)
  assume "umin = Some 0 \<or> jmax = Some 0"
  then show "calculate_salary_match umin umax jmin jmax = Inr (1 / 2)"
    by (intro salary_neutral) (auto simp: py_not_def)
next
  show "calculate_salary_match (Some 0) umax jmin jmax = calculate_salary_match None umax jmin jmax"
    by (simp add: salary_neutral py_not_def)
next
  show "calculate_salary_match umin umax jmin (Some 0) = calculate_salary_match umin umax jmin None"
    by (simp add: salary_neutral py_not_def)
next
  show "overlap_start a (Some 0) = overlap_start a None"
    by (simp add: overlap_start_def py_or_def)
next
  assume "umax = None \<or> umax = Some 0"
  then show "calculate_salary_match umin umax (Some 0) jmax = calculate_salary_match umin umax None jmax"
    by (auto simp: calculate_salary_match_def ranges_overlap_def overlap_start_def py_or_def
        split: option.splits)
qed

text \<open>
  Witness for C10: a job maximum of 0 against an expectation of 50000..70000 gives 0.5, and
  with no candidate maximum a job minimum of 0 gives the result of an absent one, 1.0.
\<close>

theorem salary_zero_as_absent_witness:
  "calculate_salary_match (Some 50000) (Some 70000) (Some 40000) (Some 0) = Inr (1 / 2)
   \<and> calculate_salary_match (Some 50000) None (Some 0) (Some 60000)
       = calculate_salary_match (Some 50000) None None (Some 60000)
   \<and> calculate_salary_match (Some 50000) None None (Some 60000) = Inr 1"
  using salary_zero_as_absent[where umin = "Some 50000" and umax = "Some 70000"
      and jmin = "Some 40000" and jmax = "Some 0" and a = 0]
    salary_zero_as_absent[where umin = "Some 50000" and umax = None
      and jmin = None and jmax = "Some 60000" and a = 0]
  by (simp add: calculate_salary_match_def ranges_overlap_def overlap_start_def overlap_end_def
      py_or_def py_not_def)

section \<open>The experience sub-scorer\<close>

lemma match_range_at_sep_cong:
  assumes "\<forall>c\<in>set s. sep1 c = sep2 c"
  shows "match_range_at sep1 dv s = match_range_at sep2 dv s"
proof (cases "dropWhile (is_digit dv) s")
  case Nil
  show ?thesis unfolding match_range_at_def Let_def Nil by simp
next
  case (Cons c r)
  then have "c \<in> set (dropWhile (is_digit dv) s)" by simp
  then have "c \<in> set s" by (rule set_dropWhileD)
  with assms have "sep1 c = sep2 c" by blast
  then show ?thesis unfolding match_range_at_def Let_def Cons by simp
qed

lemma re_search_range_sep_cong:
  "\<forall>c\<in>set s. sep1 c = sep2 c \<Longrightarrow> re_search_range sep1 dv s = re_search_range sep2 dv s"
proof (induction s)
  case Nil
  then show ?case by simp
next
  case (Cons c cs)
  have "match_range_at sep1 dv (c # cs) = match_range_at sep2 dv (c # cs)"
    using Cons.prems by (rule match_range_at_sep_cong)
  moreover have "re_search_range sep1 dv cs = re_search_range sep2 dv cs"
    using Cons by simp
  ultimately show ?case by (simp split: option.splits)
qed







text \<open>\<open>int\<close> reads a run of digits as a decimal number.\<close>

lemma py_int_decimal:
  "py_int dv [] = 0"
  "py_int dv (ds @ [d]) = 10 * py_int dv ds + (case dv d of Some v \<Rightarrow> v | None \<Rightarrow> 0)"
  by (simp_all add: py_int_def)

lemma range_division_returns:
  "years < min_years \<Longrightarrow>
   py_truediv (int years) (int min_years) = Inr (fl64 (real years / real min_years))"
  using py_truediv_small[of "int min_years" "int years"] by simp



lemma experience_examples:
  "calculate_experience_match ascii_rt [()] (Some (u ''2-5 years'')) = 1 / 2"
  "calculate_experience_match ascii_rt (replicate 8 ()) (Some (u ''2-5 years'')) = fl64 (9 / 10)"
  "calculate_experience_match ascii_rt (replicate 8 ()) (Some (u ''Senior level'')) = 1"
  "calculate_experience_match ascii_rt [(), ()] (Some (u ''1-2 or 5-8 years'')) = 1"
  "calculate_experience_match ascii_rt [(), (), ()] (Some (u ''5-2 years'')) = fl64 (3 / 5)"
  by (simp_all add: experience_eval ascii_defs u_simps fl64_half fl64_nonneg max_absorb2)

text \<open>
  Claim C6, at a failing input. The en-dash U+2013 is not in the character class of the
  pattern (the class holds the hyphen and the three code points that the UTF-8 bytes of an
  en-dash give when read as Windows-1252). So with three experience entries "2-5 years"
  parses and scores 1.0, while the same range with an en-dash does not parse and falls
  through the keyword checks to the default 0.5.
\<close>

theorem experience_en_dash_not_parsed:
  "\<not> exp_sep en_dash
   \<and> re_search_range exp_sep (re_digit ascii_rt) (u ''2'' @ [en_dash] @ u ''5 years'') = None
   \<and> calculate_experience_match ascii_rt [(), (), ()] (Some (u ''2'' @ [en_dash] @ u ''5 years'')) = 1 / 2
   \<and> calculate_experience_match ascii_rt [(), (), ()] (Some (u ''2-5 years'')) = 1"
  by (simp add: experience_eval ascii_defs u_simps)

section \<open>The location sub-scorer\<close>

text \<open>
  Claim C8 as stated fails on a location that is present but empty. The candidate's
  location is the empty string and the job's is "Remote": neither is absent and the job's
  location contains "remote", so the claim gives 1.0; the code returns 0.5.
\<close>

theorem location_empty_counterexample:
  "sublist (u ''remote'') (str_lower ascii_rt (u ''Remote''))
   \<and> calculate_location_match ascii_rt (Some []) (Some (u ''Remote'')) = 1 / 2
   \<and> calculate_location_match ascii_rt (Some []) (Some (u ''Remote'')) \<noteq> 1"
  by (simp add: calculate_location_match_def ascii_defs u_simps sublist_code)

text \<open>
  Claim C8, amended. If either location is absent or the empty string the result is 0.5.
  Otherwise: 1.0 if the lower-cased job location contains "remote"; else 1.0 if the two
  lower-cased strings are equal; else 0.8 (the float) if either lower-cased string is a
  substring of the other; else 0.0.
\<close>

theorem location_match_amended:
  "(user_location = None \<or> user_location = Some [] \<or> job_location = None \<or> job_location = Some []
      \<longrightarrow> calculate_location_match py user_location job_location = 1 / 2)
   \<and> (a \<noteq> [] \<and> b \<noteq> [] \<longrightarrow>
        calculate_location_match py (Some a) (Some b) =
          (if sublist (u ''remote'') (str_lower py b) then 1
           else if str_lower py a = str_lower py b then 1
           else if sublist (str_lower py a) (str_lower py b) \<or> sublist (str_lower py b) (str_lower py a)
           then fl64 (8 / 10)
           else 0))"
  by (auto simp: calculate_location_match_def Let_def split: option.splits)

text \<open>
  Witness for C8: no candidate location gives 0.5, and "San Francisco, CA" against
  "San Francisco" gives 0.8.
\<close>

theorem location_match_amended_witness:
  "calculate_location_match ascii_rt None (Some (u ''Remote'')) = 1 / 2
   \<and> u ''San Francisco, CA'' \<noteq> [] \<and> u ''San Francisco'' \<noteq> []
   \<and> calculate_location_match ascii_rt (Some (u ''San Francisco, CA'')) (Some (u ''San Francisco''))
       = fl64 (8 / 10)"
  using location_match_amended[where user_location = None and job_location = "Some (u ''Remote'')"
      and a = "u ''San Francisco, CA''" and b = "u ''San Francisco''" and py = ascii_rt]
  by (simp add: ascii_defs u_simps sublist_code)

lemma location_examples:
  "calculate_location_match ascii_rt (Some (u ''Austin, TX'')) (Some (u ''Boston, MA'')) = 0"
  "calculate_location_match ascii_rt (Some (u ''Austin, TX'')) (Some (u ''Remote'')) = 1"
  "calculate_location_match ascii_rt (Some (u ''austin, tx'')) (Some (u ''Austin, TX'')) = 1"
  by (simp_all add: calculate_location_match_def ascii_defs u_simps sublist_code)

section \<open>The skill sub-scorer\<close>

text \<open>The float operations of the examples, step by step.\<close>

lemma half_chain:
  "fmul (1 / 2) (fl64 (7 / 10)) = 3152519739159347 / 2 ^ 53"
  "fmul (1 / 2) (fl64 (3 / 10)) = 5404319552844595 / 2 ^ 55"
  "fadd (3152519739159347 / 2 ^ 53) (5404319552844595 / 2 ^ 55) = 1 / 2"
  "fl64 (5404319552844595 / 2 ^ 54) = 5404319552844595 / 2 ^ 54"
  "fl64 (3152519739159347 / 2 ^ 53 + 5404319552844595 / 2 ^ 54) = 1463669878895411 / 2 ^ 51"
proof -
  show "fmul (1 / 2) (fl64 (7 / 10)) = 3152519739159347 / 2 ^ 53"
    unfolding fmul_def fl64_7_10 by (subst fl64_eval[where n = 54]) (simp_all add: round_half_even_def)
  show "fmul (1 / 2) (fl64 (3 / 10)) = 5404319552844595 / 2 ^ 55"
    unfolding fmul_def fl64_3_10 by (subst fl64_eval[where n = 55]) (simp_all add: round_half_even_def)
  show "fadd (3152519739159347 / 2 ^ 53) (5404319552844595 / 2 ^ 55) = 1 / 2"
    unfolding fadd_def by (subst fl64_eval[where n = 54]) (simp_all add: round_half_even_def)
  show "fl64 (5404319552844595 / 2 ^ 54) = 5404319552844595 / 2 ^ 54"
    by (subst fl64_eval[where n = 54]) (simp_all add: round_half_even_def)
  show "fl64 (3152519739159347 / 2 ^ 53 + 5404319552844595 / 2 ^ 54) = 1463669878895411 / 2 ^ 51"
    by (subst fl64_eval[where n = 53]) (simp_all add: round_half_even_def)
qed

lemma two_thirds_chain:
  "fl64 (2 / 3) = 6004799503160661 / 2 ^ 53"
  "fmul (6004799503160661 / 2 ^ 53) (fl64 (7 / 10)) = 8406719304424925 / 2 ^ 54"
  "fmul (6004799503160661 / 2 ^ 53) (fl64 (3 / 10)) = 7205759403792793 / 2 ^ 55"
  "fadd (8406719304424925 / 2 ^ 54) (7205759403792793 / 2 ^ 55) = 6004799503160661 / 2 ^ 53"
proof -
  show "fl64 (2 / 3) = 6004799503160661 / 2 ^ 53"
    by (subst fl64_eval[where n = 53]) (simp_all add: round_half_even_def)
  show "fmul (6004799503160661 / 2 ^ 53) (fl64 (7 / 10)) = 8406719304424925 / 2 ^ 54"
    unfolding fmul_def fl64_7_10 by (subst fl64_eval[where n = 54]) (simp_all add: round_half_even_def)
  show "fmul (6004799503160661 / 2 ^ 53) (fl64 (3 / 10)) = 7205759403792793 / 2 ^ 55"
    unfolding fmul_def fl64_3_10 by (subst fl64_eval[where n = 55]) (simp_all add: round_half_even_def)
  show "fadd (8406719304424925 / 2 ^ 54) (7205759403792793 / 2 ^ 55) = 6004799503160661 / 2 ^ 53"
    unfolding fadd_def by (subst fl64_eval[where n = 53]) (simp_all add: round_half_even_def)
qed

lemma skill_python_lists:
  "map (str_lower ascii_rt) [u ''python''] = [u ''python'']"
  "map (str_lower ascii_rt) [u ''Python'', u ''python''] = [u ''python'', u ''python'']"
  "py_join (u '' '') [u ''python''] = u ''python''"
  "py_join (u '' '') [u ''python'', u ''python''] = u ''python python''"
  "real (card (set [u ''python''] \<inter> set [u ''python'', u ''python'']))
     / real (length [u ''python'', u ''python'']) = 1 / 2"
  by (simp_all add: ascii_defs u_simps)

text \<open>
  Claim C4 as stated fails when the job's list repeats a skill. The resume lists "python",
  the job lists "Python" and "python", and vectorization raises. The lower-cased sets are
  both {python}, so the claim's ratio is 1 and its result 1.0; the code divides by the
  length of the job's list, 2, and returns 0.5.
\<close>

theorem skill_match_duplicates_counterexample:
  "calculate_skill_match failing_models ascii_rt [u ''python''] [u ''Python'', u ''python''] = 1 / 2
   \<and> min 1 (0.7 * spec_exact ascii_rt [u ''python''] [u ''Python'', u ''python'']
              + 0.3 * spec_exact ascii_rt [u ''python''] [u ''Python'', u ''python'']) = 1"
proof -
  have "calculate_skill_match failing_models ascii_rt [u ''python''] [u ''Python'', u ''python'']
          = min (fadd (fmul (fl64 (1 / 2)) (fl64 (7 / 10))) (fmul (fl64 (1 / 2)) (fl64 (3 / 10)))) 1"
    unfolding calculate_skill_match_def Let_def skill_python_lists
    by (simp add: failing_models_def)
  then have "calculate_skill_match failing_models ascii_rt [u ''python''] [u ''Python'', u ''python''] = 1 / 2"
    by (simp only: fl64_half half_chain)
  moreover have "spec_exact ascii_rt [u ''python''] [u ''Python'', u ''python''] = 1"
    unfolding spec_exact_def skill_python_lists by simp
  ultimately show ?thesis by simp
qed

text \<open>
  The difference does not depend on vectorization raising: whatever similarity in [0,1]
  the library gives for these two lists, the code returns at most 0.65 and the claim's
  formula at least 0.7.
\<close>

lemma skill_match_duplicates_any_vectorizer:
  assumes "\<forall>v. tfidf_vectorizer self (u ''python'') (u ''python python'') = Some v \<longrightarrow> 0 \<le> v \<and> v \<le> 1"
  shows "calculate_skill_match self ascii_rt [u ''python''] [u ''Python'', u ''python''] \<le> 65 / 100
       \<and> 7 / 10 \<le> min 1 (0.7 * spec_exact ascii_rt [u ''python''] [u ''Python'', u ''python'']
              + 0.3 * (case tfidf_vectorizer self (u ''python'') (u ''python python'') of
                         None \<Rightarrow> spec_exact ascii_rt [u ''python''] [u ''Python'', u ''python'']
                       | Some v \<Rightarrow> v))"
proof -
  define t where "t = (case tfidf_vectorizer self (u ''python'') (u ''python python'') of
                               Some v \<Rightarrow> v | None \<Rightarrow> fl64 (1 / 2))"
  define X where "X = fadd (fmul (fl64 (1 / 2)) (fl64 (7 / 10))) (fmul t (fl64 (3 / 10)))"
  have e: "spec_exact ascii_rt [u ''python''] [u ''Python'', u ''python''] = 1"
    unfolding spec_exact_def skill_python_lists by simp
  have c: "calculate_skill_match self ascii_rt [u ''python''] [u ''Python'', u ''python''] = min X 1"
    unfolding calculate_skill_match_def Let_def skill_python_lists X_def t_def by simp
  have t: "0 \<le> t \<and> t \<le> 1"
    using assms by (cases "tfidf_vectorizer self (u ''python'') (u ''python python'')")
      (auto simp: t_def fl64_half)
  have p: "0 \<le> fmul t (fl64 (3 / 10)) \<and> fmul t (fl64 (3 / 10)) \<le> 5404319552844595 / 2 ^ 54"
    unfolding fl64_3_10 using t by (intro fmul_le half_chain(4)) simp_all
  have "0 \<le> X \<and> X \<le> 1463669878895411 / 2 ^ 51"
    unfolding X_def fl64_half half_chain(1)
    using p by (intro fadd_le[OF _ _ _ _ half_chain(5)]) simp_all
  moreover have "(1463669878895411 / 2 ^ 51 :: real) \<le> 65 / 100" by simp
  moreover have "min X 1 \<le> X" by simp
  ultimately have "calculate_skill_match self ascii_rt [u ''python''] [u ''Python'', u ''python''] \<le> 65 / 100"
    unfolding c by linarith
  moreover have "7 / 10 \<le> min 1 (0.7 * (1::real)
              + 0.3 * (case tfidf_vectorizer self (u ''python'') (u ''python python'') of
                         None \<Rightarrow> 1 | Some v \<Rightarrow> v))"
    using assms by (cases "tfidf_vectorizer self (u ''python'') (u ''python python'')") auto
  ultimately show ?thesis unfolding e by simp
qed

text \<open>
  Claim C4, amended. If either list is empty the result is 0. Otherwise it is
  \<open>min(1.0, exact*0.7 + secondary*0.3)\<close> in float arithmetic, where \<open>exact\<close> is the number
  of distinct lower-cased names common to both lists divided by the number of entries of
  the job's list, repetitions counted, and \<open>secondary\<close> is the lexical similarity, replaced
  by \<open>exact\<close> when vectorization raises. When the lower-cased job list has no repetition,
  the quotient is the ratio of the specification.
\<close>

theorem skill_match_amended:
  "(R = [] \<or> J = [] \<longrightarrow> calculate_skill_match self py R J = 0)
   \<and> (R \<noteq> [] \<and> J \<noteq> [] \<longrightarrow>
        calculate_skill_match self py R J =
          (let exact = fl64 (real (card (set (map (str_lower py) R) \<inter> set (map (str_lower py) J)))
                         / real (length J));
               secondary = (case tfidf_vectorizer self (py_join (u '' '') (map (str_lower py) R))
                                                       (py_join (u '' '') (map (str_lower py) J)) of
                              None \<Rightarrow> exact
                            | Some v \<Rightarrow> v)
           in min 1 (fadd (fmul exact (fl64 0.7)) (fmul secondary (fl64 0.3)))))
   \<and> (distinct (map (str_lower py) J) \<longrightarrow>
        real (card (set (map (str_lower py) R) \<inter> set (map (str_lower py) J))) / real (length J)
        = spec_exact py R J)"
proof (intro conjI impI)
  assume "R = [] \<or> J = []"
  then show "calculate_skill_match self py R J = 0"
    by (auto simp: calculate_skill_match_def)
next
  assume "R \<noteq> [] \<and> J \<noteq> []"
  then show "calculate_skill_match self py R J =
          (let exact = fl64 (real (card (set (map (str_lower py) R) \<inter> set (map (str_lower py) J)))
                         / real (length J));
               secondary = (case tfidf_vectorizer self (py_join (u '' '') (map (str_lower py) R))
                                                       (py_join (u '' '') (map (str_lower py) J)) of
                              None \<Rightarrow> exact
                            | Some v \<Rightarrow> v)
           in min 1 (fadd (fmul exact (fl64 0.7)) (fmul secondary (fl64 0.3))))"
    by (simp add: calculate_skill_match_def Let_def min.commute split: option.splits)
next
  assume "distinct (map (str_lower py) J)"
  then have "card (set (map (str_lower py) J)) = length (map (str_lower py) J)"
    by (rule distinct_card)
  then show "real (card (set (map (str_lower py) R) \<inter> set (map (str_lower py) J))) / real (length J)
        = spec_exact py R J"
    by (simp add: spec_exact_def)
qed

text \<open>
  Witness for C4: an empty resume list gives 0; the resume skills React, Node.js,
  PostgreSQL against the required React, Node.js, AWS, with vectorization raising, give
  the float nearest to 2/3, and 2/3 is the specification's ratio.
\<close>

theorem skill_match_amended_witness:
  "calculate_skill_match failing_models ascii_rt [] [u ''React''] = 0
   \<and> [u ''React'', u ''Node.js'', u ''PostgreSQL''] \<noteq> [] \<and> [u ''React'', u ''Node.js'', u ''AWS''] \<noteq> []
   \<and> distinct (map (str_lower ascii_rt) [u ''React'', u ''Node.js'', u ''AWS''])
   \<and> calculate_skill_match failing_models ascii_rt [u ''React'', u ''Node.js'', u ''PostgreSQL'']
        [u ''React'', u ''Node.js'', u ''AWS''] = fl64 (2 / 3)
   \<and> spec_exact ascii_rt [u ''React'', u ''Node.js'', u ''PostgreSQL'']
        [u ''React'', u ''Node.js'', u ''AWS''] = 2 / 3"
proof -
  have c: "card (set (map (str_lower ascii_rt) [u ''React'', u ''Node.js'', u ''PostgreSQL''])
                 \<inter> set (map (str_lower ascii_rt) [u ''React'', u ''Node.js'', u ''AWS''])) = 2"
    by (simp add: ascii_defs u_simps)
  have d: "distinct (map (str_lower ascii_rt) [u ''React'', u ''Node.js'', u ''AWS''])"
    by (simp add: ascii_defs u_simps)
  have t: "tfidf_vectorizer failing_models x y = None" for x y by (simp add: failing_models_def)
  have v: "min 1 (fadd (fmul (fl64 (2 / 3)) (fl64 0.7)) (fmul (fl64 (2 / 3)) (fl64 0.3))) = fl64 (2 / 3)"
  proof -
    have "(0.7::real) = 7 / 10" "(0.3::real) = 3 / 10" by simp_all
    then have "fadd (fmul (fl64 (2 / 3)) (fl64 0.7)) (fmul (fl64 (2 / 3)) (fl64 0.3)) = fl64 (2 / 3)"
      by (simp only: two_thirds_chain)
    then show ?thesis by (simp add: two_thirds_chain(1))
  qed
  show ?thesis
    using skill_match_amended[where R = "[u ''React'', u ''Node.js'', u ''PostgreSQL'']"
        and J = "[u ''React'', u ''Node.js'', u ''AWS'']" and self = failing_models and py = ascii_rt]
      skill_match_amended[where R = "[]" and J = "[u ''React'']" and self = failing_models
        and py = ascii_rt]
    unfolding c Let_def t
    using d v by simp
qed

section \<open>Text extraction\<close>

text \<open>
  Claim C3 as stated fails when the primary extractor ends normally without text. On a
  file whose only page gives \<open>pdfplumber\<close> no text, the stage returns the empty string
  and \<open>PyPDF2\<close> is never called, although it would have found text.
\<close>

theorem pdf_no_text_counterexample:
  "snd (pdfplumber_run empty_primary [37, 80, 68, 70]) = None
   \<and> foldl add_page_if_text [] (fst (pdfplumber_run empty_primary [37, 80, 68, 70])) = []
   \<and> extract_text_from_pdf empty_primary ascii_rt [37, 80, 68, 70] = ([Pdfplumber], Inr [])
   \<and> PyPDF2 \<notin> set (fst (extract_text_from_pdf empty_primary ascii_rt [37, 80, 68, 70]))"
  by (simp add: extract_text_from_pdf_def empty_primary_def add_page_if_text_def py_strip_def)

text \<open>
  Claim C3, amended. The secondary extractor is attempted exactly when the primary one
  raises an exception; the stage fails with an extraction error exactly when both
  extractors raise; and when the primary extractor ends without raising, the stage
  returns the stripped text it gave, even if that text is empty, without calling the
  secondary one.
\<close>

theorem pdf_fallback_amended:
  "(PyPDF2 \<in> set (fst (extract_text_from_pdf libs py f)) \<longleftrightarrow> snd (pdfplumber_run libs f) \<noteq> None)
   \<and> ((\<exists>e. snd (extract_text_from_pdf libs py f) = Inl e)
        \<longleftrightarrow> snd (pdfplumber_run libs f) \<noteq> None \<and> snd (pypdf2_run libs f) \<noteq> None)
   \<and> (snd (pdfplumber_run libs f) = None \<longrightarrow>
        extract_text_from_pdf libs py f =
          ([Pdfplumber],
           Inr (py_strip (str_isspace py) (foldl add_page_if_text [] (fst (pdfplumber_run libs f))))))"
  by (auto simp: extract_text_from_pdf_def Let_def split: prod.splits option.splits)

text \<open>Witness for C3: the primary extractor ends normally with no text.\<close>

theorem pdf_fallback_amended_witness:
  "snd (pdfplumber_run empty_primary [37, 80, 68, 70]) = None
   \<and> extract_text_from_pdf empty_primary ascii_rt [37, 80, 68, 70] = ([Pdfplumber], Inr [])"
  using pdf_fallback_amended[where libs = empty_primary and py = ascii_rt and f = "[37, 80, 68, 70]"]
  by (simp add: empty_primary_def add_page_if_text_def py_strip_def)

lemma pdf_fallback_examples:
  "extract_text_from_pdf
     \<lparr> pdfplumber_run = (\<lambda>f. ([], Some (u ''bad xref''))),
       pypdf2_run = (\<lambda>f. ([u ''Jane Doe''], None)) \<rparr> ascii_rt [37, 80, 68, 70]
   = ([Pdfplumber, PyPDF2], Inr (u ''Jane Doe''))"
  "extract_text_from_pdf
     \<lparr> pdfplumber_run = (\<lambda>f. ([], Some (u ''bad xref''))),
       pypdf2_run = (\<lambda>f. ([], Some (u ''EOF''))) \<rparr> ascii_rt [37, 80, 68, 70]
   = ([Pdfplumber, PyPDF2], Inl (ValueError (u ''Failed to extract text from PDF: EOF'')))"
  by (simp_all add: extract_text_from_pdf_def py_strip_def ascii_defs u_simps)

section \<open>Skill extraction\<close>

lemma unique_skills_not_seen:
  "r \<in> set (unique_skills py seen xs) \<Longrightarrow> str_lower py (skill_name r) \<notin> seen"
  by (induction xs arbitrary: seen) (auto simp: Let_def split: if_splits)

lemma unique_skills_distinct:
  "distinct (map (\<lambda>r. str_lower py (skill_name r)) (unique_skills py seen xs))"
proof (induction xs arbitrary: seen)
  case Nil
  then show ?case by simp
next
  case (Cons x xs)
  show ?case
  proof (cases "str_lower py (skill_name x) \<in> seen")
    case True
    then show ?thesis using Cons.IH by (simp add: Let_def)
  next
    case False
    have "str_lower py (skill_name x) \<notin>
          (\<lambda>r. str_lower py (skill_name r)) ` set (unique_skills py (insert (str_lower py (skill_name x)) seen) xs)"
      using unique_skills_not_seen by fastforce
    then show ?thesis using False Cons.IH by (simp add: Let_def)
  qed
qed

lemma unique_skills_first:
  "r \<in> set (unique_skills py seen xs) \<Longrightarrow>
   find (\<lambda>x. str_lower py (skill_name x) = str_lower py (skill_name r)) xs = Some r"
proof (induction xs arbitrary: seen)
  case Nil
  then show ?case by simp
next
  case (Cons x xs)
  show ?case
  proof (cases "str_lower py (skill_name x) \<in> seen")
    case True
    then have r: "r \<in> set (unique_skills py seen xs)" using Cons.prems by (simp add: Let_def)
    then have "str_lower py (skill_name r) \<notin> seen" by (rule unique_skills_not_seen)
    with True have "str_lower py (skill_name x) \<noteq> str_lower py (skill_name r)" by auto
    then show ?thesis using Cons.IH[OF r] by simp
  next
    case False
    then have "r = x \<or> r \<in> set (unique_skills py (insert (str_lower py (skill_name x)) seen) xs)"
      using Cons.prems by (simp add: Let_def)
    then show ?thesis
    proof
      assume "r = x" then show ?thesis by simp
    next
      assume r: "r \<in> set (unique_skills py (insert (str_lower py (skill_name x)) seen) xs)"
      then have "str_lower py (skill_name r) \<notin> insert (str_lower py (skill_name x)) seen"
        by (rule unique_skills_not_seen)
      then have "str_lower py (skill_name x) \<noteq> str_lower py (skill_name r)" by auto
      then show ?thesis using Cons.IH[OF r] by simp
    qed
  qed
qed

lemma unique_skills_keys:
  "(\<lambda>r. str_lower py (skill_name r)) ` set (unique_skills py seen xs)
   = (\<lambda>r. str_lower py (skill_name r)) ` set xs - seen"
  by (induction xs arbitrary: seen) (auto simp: Let_def)

lemma unique_skills_first_occurrences:
  "unique_skills py seen xs =
     first_occurrences (\<lambda>r. str_lower py (skill_name r))
       (filter (\<lambda>r. str_lower py (skill_name r) \<notin> seen) xs)"
proof (induction xs arbitrary: seen)
  case Nil
  then show ?case by simp
next
  case (Cons x xs)
  show ?case
  proof (cases "str_lower py (skill_name x) \<in> seen")
    case True
    then show ?thesis using Cons.IH[of seen] by (simp add: Let_def)
  next
    case False
    have "filter (\<lambda>y. str_lower py (skill_name y) \<noteq> str_lower py (skill_name x))
            (filter (\<lambda>r. str_lower py (skill_name r) \<notin> seen) xs)
          = filter (\<lambda>r. str_lower py (skill_name r) \<notin> insert (str_lower py (skill_name x)) seen) xs"
      by (induction xs) auto
    then show ?thesis using False Cons.IH[of "insert (str_lower py (skill_name x)) seen"]
      by (simp add: Let_def)
  qed
qed

lemma found_skills_set:
  "set (found_skills py db t) =
     {\<lparr> skill_name = str_title py s, skill_category = c \<rparr> | c s.
        \<exists>ss. (c, ss) \<in> set db \<and> s \<in> set ss \<and> re_search_word py s t}"
  by (auto simp: found_skills_def found_in_category_def)

lemma found_python_first:
  "re_search_word py (u ''python'') t \<Longrightarrow>
   \<exists>rest. found_skills py skill_database t =
     \<lparr> skill_name = str_title py (u ''python''), skill_category = u ''Programming Languages'' \<rparr> # rest"
  by (simp add: found_skills_def skill_database_def found_in_category_def)

lemma unique_head_once:
  "length (filter (\<lambda>r. skill_name r = skill_name x) (unique_skills py {} (x # rest))) = 1"
proof -
  have "\<forall>r \<in> set (unique_skills py {str_lower py (skill_name x)} rest). skill_name r \<noteq> skill_name x"
    using unique_skills_not_seen by fastforce
  then have "filter (\<lambda>r. skill_name r = skill_name x) (unique_skills py {str_lower py (skill_name x)} rest) = []"
    by (simp add: filter_empty_conv)
  then show ?thesis by (simp add: Let_def)
qed

text \<open>
  Claim C9. For every text, no two records of \<open>extract_skills\<close> have names that are
  equal after lower-casing; each record returned is the first record found with its
  lower-cased name, so it carries the first occurrence's category; every lower-cased name
  that was found keeps a record: the result is exactly the found records with every
  later duplicate dropped; the found records are those of the taxonomy's skills that occur
  as words in the lower-cased text; and when the word "python" occurs there (as it does in
  a text with "Python" and "python"), exactly one record is named \<open>"python".title()\<close>,
  that is "Python".
\<close>

theorem extract_skills_unique:
  "distinct (map (\<lambda>r. str_lower py (skill_name r)) (extract_skills py text))
   \<and> (\<forall>r\<in>set (extract_skills py text).
         find (\<lambda>x. str_lower py (skill_name x) = str_lower py (skill_name r))
              (found_skills py skill_database (str_lower py text)) = Some r)
   \<and> (\<lambda>r. str_lower py (skill_name r)) ` set (extract_skills py text)
       = (\<lambda>r. str_lower py (skill_name r)) ` set (found_skills py skill_database (str_lower py text))
   \<and> extract_skills py text
       = first_occurrences (\<lambda>r. str_lower py (skill_name r))
           (found_skills py skill_database (str_lower py text))
   \<and> set (found_skills py skill_database (str_lower py text))
       = {\<lparr> skill_name = str_title py s, skill_category = c \<rparr> | c s.
            \<exists>ss. (c, ss) \<in> set skill_database \<and> s \<in> set ss
                 \<and> re_search_word py s (str_lower py text)}
   \<and> (re_search_word py (u ''python'') (str_lower py text) \<longrightarrow>
        length (filter (\<lambda>r. skill_name r = str_title py (u ''python'')) (extract_skills py text)) = 1)"
proof (intro conjI impI ballI)
  show "distinct (map (\<lambda>r. str_lower py (skill_name r)) (extract_skills py text))"
    unfolding extract_skills_def extract_skills_db_def by (rule unique_skills_distinct)
next
  fix r assume "r \<in> set (extract_skills py text)"
  then show "find (\<lambda>x. str_lower py (skill_name x) = str_lower py (skill_name r))
              (found_skills py skill_database (str_lower py text)) = Some r"
    unfolding extract_skills_def extract_skills_db_def by (rule unique_skills_first)
next
  show "(\<lambda>r. str_lower py (skill_name r)) ` set (extract_skills py text)
       = (\<lambda>r. str_lower py (skill_name r)) ` set (found_skills py skill_database (str_lower py text))"
    unfolding extract_skills_def extract_skills_db_def by (simp add: unique_skills_keys)
next
  show "extract_skills py text
       = first_occurrences (\<lambda>r. str_lower py (skill_name r))
           (found_skills py skill_database (str_lower py text))"
    unfolding extract_skills_def extract_skills_db_def
    by (simp add: unique_skills_first_occurrences)
next
  show "set (found_skills py skill_database (str_lower py text))
       = {\<lparr> skill_name = str_title py s, skill_category = c \<rparr> | c s.
            \<exists>ss. (c, ss) \<in> set skill_database \<and> s \<in> set ss
                 \<and> re_search_word py s (str_lower py text)}"
    by (rule found_skills_set)
next
  assume "re_search_word py (u ''python'') (str_lower py text)"
  then obtain rest where
    "found_skills py skill_database (str_lower py text) =
       \<lparr> skill_name = str_title py (u ''python''), skill_category = u ''Programming Languages'' \<rparr> # rest"
    using found_python_first by blast
  then show "length (filter (\<lambda>r. skill_name r = str_title py (u ''python'')) (extract_skills py text)) = 1"
    using unique_head_once[of "\<lparr> skill_name = str_title py (u ''python''), skill_category = u ''Programming Languages'' \<rparr>" py rest]
    by (simp add: extract_skills_def extract_skills_db_def)
qed

lemma extract_skills_python_example:
  "extract_skills ascii_rt (u ''Python and python'') =
     [\<lparr> skill_name = u ''Python'', skill_category = u ''Programming Languages'' \<rparr>]"
  by (simp add: extract_skills_def extract_skills_db_def found_skills_def skill_database_def
      found_in_category_def word_eval ascii_defs u_simps Let_def)

lemma extract_skills_two_example:
  "extract_skills ascii_rt (u ''java and python'') =
     [\<lparr> skill_name = u ''Python'', skill_category = u ''Programming Languages'' \<rparr>,
      \<lparr> skill_name = u ''Java'', skill_category = u ''Programming Languages'' \<rparr>]"
  by (simp add: extract_skills_def extract_skills_db_def found_skills_def skill_database_def
      found_in_category_def word_eval ascii_defs u_simps Let_def)

text \<open>
  Witness for C9: the text "Python and python" has the word "python" once lower-cased,
  \<open>extract_skills\<close> returns a record for it, and exactly one record is named "Python";
  "java and python" gives the two records Python and Java.
\<close>

theorem extract_skills_unique_witness:
  "re_search_word ascii_rt (u ''python'') (str_lower ascii_rt (u ''Python and python''))
   \<and> \<lparr> skill_name = u ''Python'', skill_category = u ''Programming Languages'' \<rparr>
        \<in> set (extract_skills ascii_rt (u ''Python and python''))
   \<and> length (filter (\<lambda>r. skill_name r = u ''Python'')
               (extract_skills ascii_rt (u ''Python and python''))) = 1
   \<and> extract_skills ascii_rt (u ''java and python'') =
        [\<lparr> skill_name = u ''Python'', skill_category = u ''Programming Languages'' \<rparr>,
         \<lparr> skill_name = u ''Java'', skill_category = u ''Programming Languages'' \<rparr>]"
proof -
  have w: "re_search_word ascii_rt (u ''python'') (str_lower ascii_rt (u ''Python and python''))"
    by (simp add: word_eval ascii_defs u_simps)
  have t: "str_title ascii_rt (u ''python'') = u ''Python''"
    by (simp add: ascii_defs u_simps)
  have "length (filter (\<lambda>r. skill_name r = str_title ascii_rt (u ''python''))
               (extract_skills ascii_rt (u ''Python and python''))) = 1"
    using extract_skills_unique[of ascii_rt "u ''Python and python''"] w
    by blast
  then show ?thesis using w t by (simp add: extract_skills_python_example extract_skills_two_example)
qed

end
